theory Spec2Isabelle
  imports Main
begin

section \<open>JavaScript values and errors\<close>

text \<open>
  A thrown JavaScript error, as far as the program inspects it: its \<open>message\<close> and, for an
  error raised by the HTTP library on a non-2xx answer, the status of \<open>error.response\<close>.
  \<open>response_status = None\<close> is an error without a response (\<open>error.response?.status\<close>
  is \<open>undefined\<close>): a network failure, a \<open>TypeError\<close>, a plain \<open>Error\<close>.
\<close>

datatype js_error = JsError (message: string) (response_status: "nat option")

text \<open>Times are milliseconds since the epoch, as \<open>Date.now()\<close> returns them.\<close>

type_synonym instant = int

text \<open>
  The values that travel as tool arguments and as HTTP bodies. An object is the list of its
  properties; the first binding of a key is the one in force. Numbers are the integers (ids,
  counts); the program does no arithmetic on what it relays.
\<close>

datatype json =
    JUndefined
  | JNull
  | JBool bool
  | JNum int
  | JStr string
  | JArr "json list"
  | JObj "(string \<times> json) list"

text \<open>Truthiness, and \<open>a || b\<close>.\<close>

fun truthy :: "json \<Rightarrow> bool" where
  "truthy JUndefined = False"
| "truthy JNull = False"
| "truthy (JBool b) = b"
| "truthy (JNum n) = (n \<noteq> 0)"
| "truthy (JStr s) = (s \<noteq> [])"
| "truthy (JArr xs) = True"
| "truthy (JObj kvs) = True"

definition js_or :: "json \<Rightarrow> json \<Rightarrow> json" where
  "js_or a b = (if truthy a then a else b)"

text \<open>
  Reading a property, \<open>v.k\<close>: a \<open>TypeError\<close> on \<open>undefined\<close> and \<open>null\<close>, the own property of
  an object, \<open>length\<close> of an array or a string, and \<open>undefined\<close> for everything else the
  program asks for (\<open>value\<close>, \<open>workItems\<close>, \<open>id\<close>, the argument names).
\<close>

fun get_prop :: "json \<Rightarrow> string \<Rightarrow> js_error + json" where
  "get_prop JUndefined k =
     Inl (JsError (''Cannot read properties of undefined (reading '' @ [CHR 0x27] @ k @ [CHR 0x27] @ '')'') None)"
| "get_prop JNull k =
     Inl (JsError (''Cannot read properties of null (reading '' @ [CHR 0x27] @ k @ [CHR 0x27] @ '')'') None)"
| "get_prop (JObj kvs) k = Inr (case map_of kvs k of None \<Rightarrow> JUndefined | Some v \<Rightarrow> v)"
| "get_prop (JArr xs) k = Inr (if k = ''length'' then JNum (int (length xs)) else JUndefined)"
| "get_prop (JStr s) k = Inr (if k = ''length'' then JNum (int (length s)) else JUndefined)"
| "get_prop (JBool b) k = Inr JUndefined"
| "get_prop (JNum n) k = Inr JUndefined"

text \<open>Optional chaining, \<open>v?.k\<close>.\<close>

definition opt_prop :: "json \<Rightarrow> string \<Rightarrow> json" where
  "opt_prop v k = (case get_prop v k of Inl e \<Rightarrow> JUndefined | Inr x \<Rightarrow> x)"

text \<open>Decimal numerals, and the string a value becomes in a template literal.\<close>

function show_nat :: "nat \<Rightarrow> string" where
  "show_nat n =
     (if n < 10 then [char_of (48 + n)] else show_nat (n div 10) @ [char_of (48 + n mod 10)])"
  by pat_completeness auto
termination
  by (relation "measure id") auto

declare show_nat.simps [simp del]

definition show_int :: "int \<Rightarrow> string" where
  "show_int i = (if i < 0 then CHR ''-'' # show_nat (nat (- i)) else show_nat (nat i))"

fun join :: "string \<Rightarrow> string list \<Rightarrow> string" where
  "join sep [] = []"
| "join sep [x] = x"
| "join sep (x # y # ys) = x @ sep @ join sep (y # ys)"

fun js_toString :: "json \<Rightarrow> string" where
  "js_toString JUndefined = ''undefined''"
| "js_toString JNull = ''null''"
| "js_toString (JBool b) = (if b then ''true'' else ''false'')"
| "js_toString (JNum n) = show_int n"
| "js_toString (JStr s) = s"
| "js_toString (JArr xs) =
     join '','' (map (\<lambda>x. if x = JNull \<or> x = JUndefined then [] else js_toString x) xs)"
| "js_toString (JObj kvs) = ''[object Object]''"

text \<open>
  The serialisation of one value by \<open>URLSearchParams\<close>: letters, digits and \<open>*-._\<close> stay, a
  space becomes \<open>+\<close>, every other byte is percent-encoded.
\<close>

definition hex_digit :: "nat \<Rightarrow> char" where
  "hex_digit n = ''0123456789ABCDEF'' ! (n mod 16)"

definition form_unreserved :: "char \<Rightarrow> bool" where
  "form_unreserved c =
     (let n = (of_char c :: nat)
      in (48 \<le> n \<and> n \<le> 57) \<or> (65 \<le> n \<and> n \<le> 90) \<or> (97 \<le> n \<and> n \<le> 122)
         \<or> c = CHR ''*'' \<or> c = CHR ''-'' \<or> c = CHR ''.'' \<or> c = CHR ''_'')"

fun form_urlencode :: "string \<Rightarrow> string" where
  "form_urlencode [] = []"
| "form_urlencode (c # cs) =
     (if form_unreserved c then [c]
      else if c = CHR '' '' then ''+''
      else [CHR ''%'', hex_digit ((of_char c :: nat) div 16), hex_digit (of_char c :: nat)])
     @ form_urlencode cs"

section \<open>Credential provider (azure-devops-client.ts, module level)\<close>

text \<open>The part of \<open>process.env\<close> the program reads; \<open>None\<close> is an unset variable.\<close>

record config =
  AZURE_DEVOPS_PAT :: "string option"
  AZURE_DEVOPS_ORG_URL :: "string option"

text \<open>\<open>const USE_PAT = !!process.env.AZURE_DEVOPS_PAT\<close>: unset and the empty string are falsy.\<close>

definition USE_PAT :: "config \<Rightarrow> bool" where
  "USE_PAT cfg = (case AZURE_DEVOPS_PAT cfg of None \<Rightarrow> False | Some p \<Rightarrow> p \<noteq> [])"

text \<open>
  \<open>process.env.AZURE_DEVOPS_PAT!\<close> as a string. The program reads it only under \<open>USE_PAT\<close>,
  where the variable is set; the other branch renders JavaScript's \<open>undefined\<close>.
\<close>

definition PAT_value :: "config \<Rightarrow> string" where
  "PAT_value cfg = (case AZURE_DEVOPS_PAT cfg of None \<Rightarrow> ''undefined'' | Some p \<Rightarrow> p)"

subsection \<open>Base64, as \<open>Buffer.from(s).toString('base64')\<close> computes it\<close>

definition b64_alphabet :: string where
  "b64_alphabet = ''ABCDEFGHIJKLMNOPQRSTUVWXYZabcdefghijklmnopqrstuvwxyz0123456789+/''"

definition b64_digit :: "nat \<Rightarrow> char" where
  "b64_digit n = b64_alphabet ! (n mod 64)"

fun base64 :: "string \<Rightarrow> string" where
  "base64 [] = []"
| "base64 [a] =
     (let x = (of_char a :: nat)
      in [b64_digit (x div 4), b64_digit ((x mod 4) * 16), CHR ''='', CHR ''=''])"
| "base64 [a, b] =
     (let x = (of_char a :: nat); y = (of_char b :: nat)
      in [b64_digit (x div 4), b64_digit ((x mod 4) * 16 + y div 16),
          b64_digit ((y mod 16) * 4), CHR ''=''])"
| "base64 (a # b # c # rest) =
     (let x = (of_char a :: nat); y = (of_char b :: nat); z = (of_char c :: nat)
      in [b64_digit (x div 4), b64_digit ((x mod 4) * 16 + y div 16),
          b64_digit ((y mod 16) * 4 + z div 64), b64_digit (z mod 64)] @ base64 rest)"

subsection \<open>\<open>getAuthHeader\<close>\<close>

definition getAuthHeader :: "config \<Rightarrow> js_error + string" where
  "getAuthHeader cfg =
     (if USE_PAT cfg then Inr (''Basic '' @ base64 ('':'' @ PAT_value cfg))
      else Inl (JsError ''No PAT token available - use getAccessToken for OAuth flow'' None))"

subsection \<open>The shared state and \<open>getAccessToken\<close>\<close>

text \<open>
  The three module variables, and what the model adds to observe them: \<open>settled\<close> holds the
  outcome of every promise that has been settled, \<open>nextPromise\<close> numbers the promises, and
  \<open>exchanges\<close> counts the calls of \<open>sharedCredential.getToken\<close>, the upstream exchange.
  \<open>tokenPromise = Some p\<close> is the promise of the request in flight.
\<close>

record cred_state =
  sharedCredential :: bool
  cachedToken :: "(string \<times> instant) option"
  tokenPromise :: "nat option"
  settled :: "nat \<Rightarrow> (js_error + string) option"
  nextPromise :: nat
  exchanges :: nat

definition init_cred :: cred_state where
  "init_cred = \<lparr> sharedCredential = False, cachedToken = None, tokenPromise = None,
                 settled = (\<lambda>_. None), nextPromise = 0, exchanges = 0 \<rparr>"

text \<open>
  What a call returns before anything is awaited: a value at once, or the promise of the
  request in flight.
\<close>

datatype 'a promise = Resolved 'a | Pending nat

text \<open>\<open>cachedToken && cachedToken.expiresOn > new Date(Date.now() + 60000)\<close>\<close>

definition cache_valid :: "cred_state \<Rightarrow> instant \<Rightarrow> bool" where
  "cache_valid s now =
     (case cachedToken s of None \<Rightarrow> False | Some (tok, expiresOn) \<Rightarrow> expiresOn > now + 60000)"

definition cached_value :: "cred_state \<Rightarrow> string" where
  "cached_value s = (case cachedToken s of None \<Rightarrow> [] | Some (tok, expiresOn) \<Rightarrow> tok)"

text \<open>
  \<open>getAccessToken\<close> up to its return. The immediately invoked async function runs
  synchronously up to \<open>await sharedCredential.getToken(...)\<close>: it creates the credential
  object if there is none and issues the exchange; then \<open>tokenPromise\<close> is assigned.
  \<open>now\<close> is the value of \<open>Date.now()\<close> at the call. The identity library is taken to
  behave as it is declared: the constructor of the credential returns, and \<open>getToken\<close>, an
  async method, answers in a later turn of the event loop, never inside the call.
\<close>

definition getAccessToken :: "config \<Rightarrow> instant \<Rightarrow> cred_state \<Rightarrow> string promise \<times> cred_state" where
  "getAccessToken cfg now s =
     (if USE_PAT cfg then (Resolved (PAT_value cfg), s)
      else if cache_valid s now then (Resolved (cached_value s), s)
      else (case tokenPromise s of
              Some p \<Rightarrow> (Pending p, s)
            | None \<Rightarrow>
                (Pending (nextPromise s),
                 s\<lparr> sharedCredential := True,
                    exchanges := Suc (exchanges s),
                    tokenPromise := Some (nextPromise s),
                    nextPromise := Suc (nextPromise s) \<rparr>)))"

text \<open>
  What \<open>getToken\<close> answers: a rejection, \<open>null\<close>, or an access token with its
  \<open>expiresOnTimestamp\<close>.
\<close>

datatype token_response = Rejected js_error | NullResponse | AccessToken string instant

text \<open>
  The rest of the async function, run when the exchange answers at time \<open>now\<close>: the \<open>try\<close>
  block after the \<open>await\<close> ...
\<close>

definition tokenRequestBody ::
  "instant \<Rightarrow> token_response \<Rightarrow> cred_state \<Rightarrow> (js_error + string) \<times> cred_state" where
  "tokenRequestBody now r s =
     (case r of
        Rejected e \<Rightarrow> (Inl e, s)
      | NullResponse \<Rightarrow> (Inl (JsError ''Failed to acquire access token'' None), s)
      | AccessToken tok expiresOnTimestamp \<Rightarrow>
          (Inr tok,
           s\<lparr> cachedToken :=
                Some (tok, if expiresOnTimestamp \<noteq> 0 then expiresOnTimestamp
                           else now + 3600 * 1000) \<rparr>))"

text \<open>
  ... and the \<open>finally\<close> block, after which the promise is settled with the outcome. With no
  request in flight there is nothing to resume.
\<close>

definition finishTokenRequest :: "instant \<Rightarrow> token_response \<Rightarrow> cred_state \<Rightarrow> cred_state" where
  "finishTokenRequest now r s =
     (case tokenPromise s of
        None \<Rightarrow> s
      | Some p \<Rightarrow>
          (case tokenRequestBody now r s of
             (outcome, s1) \<Rightarrow> s1\<lparr> tokenPromise := None, settled := (settled s1)(p \<mapsto> outcome) \<rparr>))"

text \<open>What a caller that awaits the returned promise receives, once it is settled.\<close>

definition awaited :: "cred_state \<Rightarrow> string promise \<Rightarrow> (js_error + string) option" where
  "awaited s r = (case r of Resolved v \<Rightarrow> Some (Inr v) | Pending p \<Rightarrow> settled s p)"

text \<open>
  Concurrent callers: calls made one after the other, at the times given, while no exchange
  answers in between, so that all of them are suspended on what they were returned. The
  event loop runs each call to its return before the next one starts.
\<close>

fun calls :: "config \<Rightarrow> instant list \<Rightarrow> cred_state \<Rightarrow> string promise list \<times> cred_state" where
  "calls cfg [] s = ([], s)"
| "calls cfg (t # ts) s =
     (case getAccessToken cfg t s of
        (r, s1) \<Rightarrow> (case calls cfg ts s1 of (rs, s2) \<Rightarrow> (r # rs, s2)))"

subsection \<open>The life of the process, as the credential provider sees it\<close>

text \<open>
  Whatever the dispatches do and however they interleave, the shared state is touched by two
  kinds of steps only: a call of \<open>getAccessToken\<close> at some time, and the answer to the
  exchange in flight at some time.
\<close>

datatype event = Call instant | Answer instant token_response

fun run :: "config \<Rightarrow> event list \<Rightarrow> cred_state \<Rightarrow> cred_state" where
  "run cfg [] s = s"
| "run cfg (Call t # es) s = run cfg es (snd (getAccessToken cfg t s))"
| "run cfg (Answer t r # es) s = run cfg es (finishTokenRequest t r s)"

section \<open>Backend client (azure-devops-client.ts, class \<open>AzureDevOpsClient\<close>)\<close>

subsection \<open>The world of one process\<close>

text \<open>
  An outbound HTTP request: what is sent, as far as the properties below read it. The
  \<open>Content-Type\<close> header is left out.
\<close>

record http_request =
  req_method :: string
  req_url :: string
  req_authorization :: string
  req_body :: json

text \<open>
  The two remote parties. \<open>idp k\<close> is how the \<open>k\<close>-th exchange is answered, \<open>api r\<close> how the
  resource server answers request \<open>r\<close>: the HTTP library resolves with \<open>response.data\<close> on a
  2xx status and rejects otherwise. Each answer comes with the time it took, in milliseconds.
\<close>

record remote =
  idp :: "nat \<Rightarrow> nat \<times> token_response"
  api :: "http_request \<Rightarrow> nat \<times> (js_error + json)"

text \<open>
  The mutable state of the process: the credential provider's variables, the clock, the
  lazily built client of functions/mcp.ts (\<open>azureClient\<close>, held as its \<open>organization\<close>), the
  client's HTTP instance (held as its default \<open>Authorization\<close> header; \<open>None\<close> is \<open>null\<close>)
  with the \<open>initialized\<close> flag, and the log of the HTTP requests sent, oldest first.
\<close>

record world =
  cred :: cred_state
  clock :: instant
  azureClient :: "string option"
  axiosInstance :: "string option"
  initialized :: bool
  requests :: "http_request list"

definition init_world :: "instant \<Rightarrow> world" where
  "init_world t = \<lparr> cred = init_cred, clock = t, azureClient = None, axiosInstance = None,
                     initialized = False, requests = [] \<rparr>"

text \<open>
  Code that may throw and changes the world: one dispatch, run without another one
  interleaved.
\<close>

type_synonym 'a io = "world \<Rightarrow> (js_error + 'a) \<times> world"

definition return :: "'a \<Rightarrow> 'a io" where
  "return a w = (Inr a, w)"

definition throw :: "js_error \<Rightarrow> 'a io" where
  "throw e w = (Inl e, w)"

definition liftE :: "js_error + 'a \<Rightarrow> 'a io" where
  "liftE r w = (r, w)"

definition and_then :: "'a io \<Rightarrow> ('a \<Rightarrow> 'b io) \<Rightarrow> 'b io" where
  "and_then m f w = (case m w of (Inl e, w1) \<Rightarrow> (Inl e, w1) | (Inr a, w1) \<Rightarrow> f a w1)"

definition try_catch :: "'a io \<Rightarrow> (js_error \<Rightarrow> 'a io) \<Rightarrow> 'a io" where
  "try_catch m h w = (case m w of (Inl e, w1) \<Rightarrow> h e w1 | (Inr a, w1) \<Rightarrow> (Inr a, w1))"

text \<open>
  \<open>await getAccessToken()\<close> in a dispatch that runs alone: a value returned at once is taken;
  otherwise the dispatch is suspended until the exchange in flight answers, the rest of the
  token request runs, and the dispatch receives what the promise was settled with.
\<close>

definition awaitAccessToken :: "config \<Rightarrow> remote \<Rightarrow> string io" where
  "awaitAccessToken cfg env w =
     (case getAccessToken cfg (clock w) (cred w) of
        (Resolved tok, c) \<Rightarrow> (Inr tok, w\<lparr> cred := c \<rparr>)
      | (Pending p, c) \<Rightarrow>
          (case idp env (exchanges c) of
             (delay, r) \<Rightarrow>
               (fst (tokenRequestBody (clock w + int delay) r c),
                w\<lparr> cred := finishTokenRequest (clock w + int delay) r c,
                   clock := clock w + int delay \<rparr>)))"

subsection \<open>Construction and the HTTP instance\<close>

text \<open>
  The constructor: \<open>orgUrl.match(/dev\.azure\.com\/([^\/]+)/)\<close> finds the leftmost
  \<open>dev.azure.com/\<close> that is followed by a non-empty segment, and takes the segment.
\<close>

fun strip_prefix :: "string \<Rightarrow> string \<Rightarrow> string option" where
  "strip_prefix [] s = Some s"
| "strip_prefix (p # ps) [] = None"
| "strip_prefix (p # ps) (c # cs) = (if p = c then strip_prefix ps cs else None)"

fun match_organization :: "string \<Rightarrow> string option" where
  "match_organization [] = None"
| "match_organization (c # cs) =
     (case strip_prefix ''dev.azure.com/'' (c # cs) of
        None \<Rightarrow> match_organization cs
      | Some rest \<Rightarrow>
          (if takeWhile (\<lambda>x. x \<noteq> CHR ''/'') rest \<noteq> []
           then Some (takeWhile (\<lambda>x. x \<noteq> CHR ''/'') rest)
           else match_organization cs))"

definition new_AzureDevOpsClient :: "config \<Rightarrow> js_error + string" where
  "new_AzureDevOpsClient cfg =
     (case AZURE_DEVOPS_ORG_URL cfg of
        None \<Rightarrow> Inl (JsError ''AZURE_DEVOPS_ORG_URL is not defined in environment variables'' None)
      | Some orgUrl \<Rightarrow>
          (if orgUrl = []
           then Inl (JsError ''AZURE_DEVOPS_ORG_URL is not defined in environment variables'' None)
           else (case match_organization orgUrl of
                   None \<Rightarrow> Inl (JsError ''Invalid AZURE_DEVOPS_ORG_URL format. Expected https://dev.azure.com/{organization}'' None)
                 | Some organization \<Rightarrow> Inr organization)))"

definition ensureInitialized :: "config \<Rightarrow> remote \<Rightarrow> unit io" where
  "ensureInitialized cfg env w =
     (if axiosInstance w \<noteq> None \<and> initialized w then return () w
      else and_then
             (if USE_PAT cfg then liftE (getAuthHeader cfg)
              else and_then (awaitAccessToken cfg env) (\<lambda>token. return (''Bearer '' @ token)))
             (\<lambda>authHeader w1. return () (w1\<lparr> axiosInstance := Some authHeader, initialized := True \<rparr>))
             w)"

definition getClient :: "config \<Rightarrow> remote \<Rightarrow> unit io" where
  "getClient cfg env =
     and_then (ensureInitialized cfg env)
       (\<lambda>client.
          if \<not> USE_PAT cfg
          then and_then (awaitAccessToken cfg env)
                 (\<lambda>token w. return () (w\<lparr> axiosInstance := Some (''Bearer '' @ token) \<rparr>))
          else return ())"

text \<open>
  A request through the instance, \<open>client.get(path)\<close> or \<open>client.post(path, body)\<close>: it goes to
  the base URL of the organization with the instance's \<open>Authorization\<close> header, and is logged.
\<close>

definition client_request :: "remote \<Rightarrow> string \<Rightarrow> string \<Rightarrow> string \<Rightarrow> json \<Rightarrow> json io" where
  "client_request env organization m path body w =
     (let req = \<lparr> req_method = m,
                  req_url = ''https://dev.azure.com/'' @ organization @ path,
                  req_authorization = (case axiosInstance w of None \<Rightarrow> [] | Some h \<Rightarrow> h),
                  req_body = body \<rparr>
      in case api env req of
           (delay, answer) \<Rightarrow>
             (answer, w\<lparr> requests := requests w @ [req], clock := clock w + int delay \<rparr>))"

text \<open>A request through the library itself, \<open>axios.get(url, { headers })\<close>.\<close>

definition axios_get :: "remote \<Rightarrow> string \<Rightarrow> string \<Rightarrow> json io" where
  "axios_get env url authorization w =
     (let req = \<lparr> req_method = ''GET'', req_url = url, req_authorization = authorization,
                  req_body = JUndefined \<rparr>
      in case api env req of
           (delay, answer) \<Rightarrow>
             (answer, w\<lparr> requests := requests w @ [req], clock := clock w + int delay \<rparr>))"

subsection \<open>The operations the properties are about\<close>

text \<open>The request paths, as the template literals build them.\<close>

definition workItems_url :: "json \<Rightarrow> string \<Rightarrow> string" where
  "workItems_url project idsString =
     ''/'' @ js_toString project @ ''/_apis/wit/workitems?ids='' @ idsString @ ''&api-version=7.1''"

definition wiql_url :: "json \<Rightarrow> string" where
  "wiql_url project = ''/'' @ js_toString project @ ''/_apis/wit/wiql?api-version=7.1''"

definition teamMembers_url :: "json \<Rightarrow> json \<Rightarrow> string" where
  "teamMembers_url project team =
     ''/_apis/projects/'' @ js_toString project @ ''/teams/'' @ js_toString team
       @ ''/members?api-version=7.1''"

definition pullRequest_url :: "json \<Rightarrow> json \<Rightarrow> json \<Rightarrow> string" where
  "pullRequest_url project repositoryId pullRequestId =
     ''/'' @ js_toString project @ ''/_apis/git/repositories/'' @ js_toString repositoryId
       @ ''/pullrequests/'' @ js_toString pullRequestId @ ''?api-version=7.1''"

definition alert_url :: "json \<Rightarrow> json \<Rightarrow> json \<Rightarrow> string" where
  "alert_url project repositoryId alertId =
     ''/'' @ js_toString project @ ''/_apis/alert/repositories/'' @ js_toString repositoryId
       @ ''/alerts/'' @ js_toString alertId @ ''?api-version=7.1-preview.1''"

definition identities_url :: "string \<Rightarrow> json \<Rightarrow> string" where
  "identities_url organization searchFilter =
     ''https://vssps.dev.azure.com/'' @ organization @ ''/_apis/identities''
       @ ''?'' @ ''api-version=7.1&searchFilter=General&filterValue=''
       @ form_urlencode (js_toString searchFilter)"

definition getWorkItems :: "config \<Rightarrow> remote \<Rightarrow> string \<Rightarrow> json \<Rightarrow> json \<Rightarrow> json io" where
  "getWorkItems cfg env organization ids project =
     and_then (liftE (get_prop ids ''length''))
       (\<lambda>len.
          if len = JNum 0 then return (JArr [])
          else and_then (getClient cfg env)
                 (\<lambda>client.
                    case ids of
                      JArr xs \<Rightarrow>
                        and_then
                          (client_request env organization ''GET''
                             (workItems_url project (js_toString (JArr xs))) JUndefined)
                          (\<lambda>data. liftE (get_prop data ''value''))
                    | _ \<Rightarrow> throw (JsError ''ids.join is not a function'' None)))"

text \<open>\<open>workItemRefs.map((wi: any) => wi.id)\<close>\<close>

fun map_ids :: "json list \<Rightarrow> js_error + json list" where
  "map_ids [] = Inr []"
| "map_ids (wi # wis) =
     (case get_prop wi ''id'' of
        Inl e \<Rightarrow> Inl e
      | Inr i \<Rightarrow> (case map_ids wis of Inl e \<Rightarrow> Inl e | Inr is \<Rightarrow> Inr (i # is)))"

definition queryWorkItems :: "config \<Rightarrow> remote \<Rightarrow> string \<Rightarrow> json \<Rightarrow> json \<Rightarrow> json io" where
  "queryWorkItems cfg env organization wiql project =
     and_then (getClient cfg env)
       (\<lambda>client.
          and_then
            (client_request env organization ''POST'' (wiql_url project)
               (JObj [(''query'', wiql)]))
            (\<lambda>data.
               and_then (liftE (get_prop data ''workItems''))
                 (\<lambda>workItemRefs.
                    if \<not> truthy workItemRefs \<or> get_prop workItemRefs ''length'' = Inr (JNum 0)
                    then return (JArr [])
                    else (case workItemRefs of
                            JArr wis \<Rightarrow>
                              and_then (liftE (map_ids wis))
                                (\<lambda>ids. getWorkItems cfg env organization (JArr ids) project)
                          | _ \<Rightarrow> throw (JsError ''workItemRefs.map is not a function'' None)))))"

definition getTeamMembers :: "config \<Rightarrow> remote \<Rightarrow> string \<Rightarrow> json \<Rightarrow> json \<Rightarrow> json io" where
  "getTeamMembers cfg env organization project team =
     and_then (getClient cfg env)
       (\<lambda>client.
          try_catch
            (and_then
               (client_request env organization ''GET'' (teamMembers_url project team) JUndefined)
               (\<lambda>data. and_then (liftE (get_prop data ''value'')) (\<lambda>v. return (js_or v (JArr [])))))
            (\<lambda>error. if response_status error = Some 404 then return (JArr []) else throw error))"

text \<open>The properties \<open>getPullRequestById\<close> copies from the answer, in the order it reads them.\<close>

definition pull_request_fields :: "string list" where
  "pull_request_fields =
     [''pullRequestId'', ''repository'', ''title'', ''description'', ''createdBy'',
      ''creationDate'', ''status'', ''sourceRefName'', ''targetRefName'', ''isDraft'']"

fun pick_props :: "json \<Rightarrow> string list \<Rightarrow> js_error + (string \<times> json) list" where
  "pick_props v [] = Inr []"
| "pick_props v (k # ks) =
     (case get_prop v k of
        Inl e \<Rightarrow> Inl e
      | Inr x \<Rightarrow> (case pick_props v ks of Inl e \<Rightarrow> Inl e | Inr kvs \<Rightarrow> Inr ((k, x) # kvs)))"

definition getPullRequestById ::
  "config \<Rightarrow> remote \<Rightarrow> string \<Rightarrow> json \<Rightarrow> json \<Rightarrow> json \<Rightarrow> json io" where
  "getPullRequestById cfg env organization project repositoryId pullRequestId =
     and_then (getClient cfg env)
       (\<lambda>client.
          and_then
            (client_request env organization ''GET''
               (pullRequest_url project repositoryId pullRequestId) JUndefined)
            (\<lambda>pr. and_then (liftE (pick_props pr pull_request_fields)) (\<lambda>kvs. return (JObj kvs))))"

definition getAdvancedSecurityAlertDetails ::
  "config \<Rightarrow> remote \<Rightarrow> string \<Rightarrow> json \<Rightarrow> json \<Rightarrow> json \<Rightarrow> json io" where
  "getAdvancedSecurityAlertDetails cfg env organization project repositoryId alertId =
     and_then (getClient cfg env)
       (\<lambda>client.
          try_catch
            (client_request env organization ''GET''
               (alert_url project repositoryId alertId) JUndefined)
            (\<lambda>error. if response_status error = Some 404 then return JNull else throw error))"

definition searchIdentities :: "config \<Rightarrow> remote \<Rightarrow> string \<Rightarrow> json \<Rightarrow> json io" where
  "searchIdentities cfg env organization searchFilter =
     and_then (awaitAccessToken cfg env)
       (\<lambda>token.
          axios_get env (identities_url organization searchFilter) (''Bearer '' @ token))"

subsection \<open>The HTTP instance in static-token mode\<close>

text \<open>
  A world agrees with static-token mode when its HTTP instance, if one has been built, holds
  the header \<open>getAuthHeader\<close> computes. The world at start-up does, and no operation of the
  client changes that.
\<close>

definition pat_consistent :: "config \<Rightarrow> world \<Rightarrow> bool" where
  "pat_consistent cfg w =
     (case axiosInstance w of
        None \<Rightarrow> True
      | Some h \<Rightarrow> \<not> initialized w \<or> getAuthHeader cfg = Inr h)"

text \<open>
  \<open>only_basic cfg w w'\<close>: from \<open>w\<close> to \<open>w'\<close> the request log has only grown, every request added
  carries the header \<open>getAuthHeader\<close> computes, and \<open>w'\<close> agrees with static-token mode.
\<close>

definition only_basic :: "config \<Rightarrow> world \<Rightarrow> world \<Rightarrow> bool" where
  "only_basic cfg w w' =
     (pat_consistent cfg w'
      \<and> take (length (requests w)) (requests w') = requests w
      \<and> list_all (\<lambda>r. getAuthHeader cfg = Inr (req_authorization r))
           (drop (length (requests w)) (requests w')))"

section \<open>Tool registry and dispatch\<close>

text \<open>
  A tool descriptor as the listings hold it: \<open>properties\<close> are the names declared under
  \<open>inputSchema.properties\<close> (their own types and descriptions are left out), \<open>required\<close> is
  \<open>inputSchema.required\<close>, \<open>None\<close> where the schema has no such key.
\<close>

record tool =
  name :: string
  description :: string
  properties :: "string list"
  required :: "string list option"

subsection \<open>index.ts: the listing \<open>tools\<close> and the \<open>case\<close> labels of the call handler\<close>

definition index_tools :: "tool list" where
  "index_tools =
    [\<lparr> name = ''list_projects'',
       description = ''List all projects in the Azure DevOps organization'',
       properties = [],
       required = None \<rparr>,
     \<lparr> name = ''list_project_teams'',
       description = ''List teams for a project'',
       properties = [''project'', ''mine'', ''top''],
       required = Some [''project''] \<rparr>,
     \<lparr> name = ''list_team_members'',
       description = ''List members of a team'',
       properties = [''project'', ''team''],
       required = Some [''project'', ''team''] \<rparr>,
     \<lparr> name = ''query_work_items'',
       description = ''Query work items using WIQL (Work Item Query Language)'',
       properties = [''project'', ''wiql''],
       required = Some [''project'', ''wiql''] \<rparr>,
     \<lparr> name = ''get_work_items_by_ids'',
       description = ''Get work items by their IDs'',
       properties = [''project'', ''ids''],
       required = Some [''project'', ''ids''] \<rparr>,
     \<lparr> name = ''create_work_item'',
       description = ''Create a new work item'',
       properties = [''project'', ''workItemType'', ''title'', ''description'', ''additionalFields''],
       required = Some [''project'', ''workItemType'', ''title''] \<rparr>,
     \<lparr> name = ''update_work_item'',
       description = ''Update fields of an existing work item'',
       properties = [''project'', ''id'', ''fields'', ''comment''],
       required = Some [''project'', ''id'', ''fields''] \<rparr>,
     \<lparr> name = ''list_work_item_types'',
       description = ''List work item types available in a project'',
       properties = [''project''],
       required = Some [''project''] \<rparr>,
     \<lparr> name = ''list_repositories'',
       description = ''List Git repositories in a project'',
       properties = [''project''],
       required = Some [''project''] \<rparr>,
     \<lparr> name = ''list_branches'',
       description = ''List branches in a repository'',
       properties = [''project'', ''repositoryId''],
       required = Some [''project'', ''repositoryId''] \<rparr>,
     \<lparr> name = ''list_commits'',
       description = ''List commits in a repository'',
       properties = [''project'', ''repositoryId'', ''top''],
       required = Some [''project'', ''repositoryId''] \<rparr>,
     \<lparr> name = ''get_file_content'',
       description = ''Get content of a file in a repository'',
       properties = [''project'', ''repositoryId'', ''path''],
       required = Some [''project'', ''repositoryId'', ''path''] \<rparr>,
     \<lparr> name = ''list_pull_requests'',
       description = ''List pull requests in a project'',
       properties = [''project'', ''repositoryId'', ''status'', ''top''],
       required = Some [''project''] \<rparr>,
     \<lparr> name = ''get_pull_request'',
       description = ''Get details of a specific pull request'',
       properties = [''project'', ''repositoryId'', ''pullRequestId''],
       required = Some [''project'', ''repositoryId'', ''pullRequestId''] \<rparr>,
     \<lparr> name = ''create_pull_request'',
       description = ''Create a new pull request'',
       properties = [''project'', ''repositoryId'', ''sourceBranch'', ''targetBranch'', ''title'', ''description''],
       required = Some [''project'', ''repositoryId'', ''sourceBranch'', ''targetBranch'', ''title''] \<rparr>,
     \<lparr> name = ''get_builds'',
       description = ''Get recent builds for a project'',
       properties = [''project'', ''definitionId'', ''top''],
       required = Some [''project''] \<rparr>,
     \<lparr> name = ''list_build_definitions'',
       description = ''List build definitions (pipelines) for a project'',
       properties = [''project''],
       required = Some [''project''] \<rparr>,
     \<lparr> name = ''list_pipelines'',
       description = ''List YAML pipelines in a project'',
       properties = [''project''],
       required = Some [''project''] \<rparr>,
     \<lparr> name = ''list_iterations'',
       description = ''List iterations (sprints) for a project'',
       properties = [''project''],
       required = Some [''project''] \<rparr>,
     \<lparr> name = ''list_team_iterations'',
       description = ''List iterations for a team'',
       properties = [''project'', ''team''],
       required = Some [''project'', ''team''] \<rparr>,
     \<lparr> name = ''list_areas'',
       description = ''List areas (classification nodes) in a project'',
       properties = [''project''],
       required = Some [''project''] \<rparr>,
     \<lparr> name = ''search_code'',
       description = ''Search for code across repositories'',
       properties = [''searchText'', ''project'', ''repository'', ''top''],
       required = Some [''searchText''] \<rparr>,
     \<lparr> name = ''search_work_items'',
       description = ''Search for work items using text search'',
       properties = [''searchText'', ''project'', ''top''],
       required = Some [''searchText''] \<rparr>,
     \<lparr> name = ''get_identity_ids'',
       description = ''Search for Azure DevOps identity IDs'',
       properties = [''searchFilter''],
       required = Some [''searchFilter''] \<rparr>,
     \<lparr> name = ''get_current_user'',
       description = ''Get the currently authenticated user details'',
       properties = [],
       required = None \<rparr>,
     \<lparr> name = ''list_boards'',
       description = ''List boards for a team'',
       properties = [''project'', ''team''],
       required = Some [''project'', ''team''] \<rparr>,
     \<lparr> name = ''list_queries'',
       description = ''List saved work item queries'',
       properties = [''project''],
       required = Some [''project''] \<rparr>,
     \<lparr> name = ''get_work_item_revisions'',
       description = ''Get revision history of a work item'',
       properties = [''project'', ''id''],
       required = Some [''project'', ''id''] \<rparr>,
     \<lparr> name = ''get_work_item_comments'',
       description = ''Get comments for a work item'',
       properties = [''project'', ''id''],
       required = Some [''project'', ''id''] \<rparr>,
     \<lparr> name = ''list_wikis'',
       description = ''List wikis in a project'',
       properties = [''project''],
       required = Some [''project''] \<rparr>,
     \<lparr> name = ''get_wiki_page'',
       description = ''Get content of a wiki page'',
       properties = [''project'', ''wikiIdentifier'', ''path''],
       required = Some [''project'', ''wikiIdentifier''] \<rparr>,
     \<lparr> name = ''list_test_plans'',
       description = ''List test plans in a project'',
       properties = [''project''],
       required = Some [''project''] \<rparr>]"

definition index_cases :: "string list" where
  "index_cases =
    [''list_projects'', ''list_project_teams'', ''list_team_members'', ''query_work_items'',
     ''get_work_items_by_ids'', ''create_work_item'', ''update_work_item'',
     ''list_work_item_types'', ''list_repositories'', ''list_branches'', ''list_commits'',
     ''get_file_content'', ''list_pull_requests'', ''get_pull_request'', ''create_pull_request'',
     ''get_builds'', ''list_build_definitions'', ''list_pipelines'', ''list_iterations'',
     ''list_team_iterations'', ''list_areas'', ''search_code'', ''search_work_items'',
     ''get_identity_ids'', ''get_current_user'', ''list_boards'', ''list_queries'',
     ''get_work_item_revisions'', ''get_work_item_comments'', ''list_wikis'', ''get_wiki_page'',
     ''list_test_plans'']"

subsection \<open>functions/mcp.ts: \<open>getToolDefinitions\<close> and the \<open>case\<close> labels of \<open>executeToolInternal\<close>\<close>

definition getToolDefinitions :: "tool list" where
  "getToolDefinitions =
    [\<lparr> name = ''list_projects'',
       description = ''List all projects in the Azure DevOps organization'',
       properties = [],
       required = None \<rparr>,
     \<lparr> name = ''list_project_teams'',
       description = ''List teams for a project'',
       properties = [''project''],
       required = Some [''project''] \<rparr>,
     \<lparr> name = ''list_team_members'',
       description = ''List members of a team'',
       properties = [''project'', ''team''],
       required = Some [''project'', ''team''] \<rparr>,
     \<lparr> name = ''query_work_items'',
       description = ''Query work items using WIQL'',
       properties = [''project'', ''wiql''],
       required = Some [''project'', ''wiql''] \<rparr>,
     \<lparr> name = ''get_work_items_by_ids'',
       description = ''Get work items by their IDs'',
       properties = [''project'', ''ids''],
       required = Some [''project'', ''ids''] \<rparr>,
     \<lparr> name = ''create_work_item'',
       description = ''Create a new work item'',
       properties = [''project'', ''workItemType'', ''title'', ''description'', ''additionalFields''],
       required = Some [''project'', ''workItemType'', ''title''] \<rparr>,
     \<lparr> name = ''update_work_item'',
       description = ''Update an existing work item'',
       properties = [''project'', ''id'', ''fields'', ''comment''],
       required = Some [''project'', ''id'', ''fields''] \<rparr>,
     \<lparr> name = ''update_work_items_batch'',
       description = ''Update multiple work items in batch'',
       properties = [''project'', ''updates''],
       required = Some [''project'', ''updates''] \<rparr>,
     \<lparr> name = ''add_child_work_items'',
       description = ''Add child work items to a parent'',
       properties = [''project'', ''parentId'', ''childIds''],
       required = Some [''project'', ''parentId'', ''childIds''] \<rparr>,
     \<lparr> name = ''link_work_items'',
       description = ''Link two work items'',
       properties = [''project'', ''sourceId'', ''targetId'', ''linkType''],
       required = Some [''project'', ''sourceId'', ''targetId''] \<rparr>,
     \<lparr> name = ''unlink_work_item'',
       description = ''Remove a link from a work item'',
       properties = [''project'', ''workItemId'', ''relationId''],
       required = Some [''project'', ''workItemId'', ''relationId''] \<rparr>,
     \<lparr> name = ''add_work_item_comment'',
       description = ''Add a comment to a work item'',
       properties = [''project'', ''workItemId'', ''text''],
       required = Some [''project'', ''workItemId'', ''text''] \<rparr>,
     \<lparr> name = ''get_work_item_comments'',
       description = ''Get comments for a work item'',
       properties = [''project'', ''id''],
       required = Some [''project'', ''id''] \<rparr>,
     \<lparr> name = ''get_work_item_revisions'',
       description = ''Get revision history for a work item'',
       properties = [''project'', ''id''],
       required = Some [''project'', ''id''] \<rparr>,
     \<lparr> name = ''list_work_item_types'',
       description = ''List available work item types'',
       properties = [''project''],
       required = Some [''project''] \<rparr>,
     \<lparr> name = ''get_my_work_items'',
       description = ''Get work items assigned to or created by current user'',
       properties = [''project'', ''assignedToMe''],
       required = Some [''project''] \<rparr>,
     \<lparr> name = ''get_work_items_for_iteration'',
       description = ''Get work items for a specific iteration'',
       properties = [''project'', ''iterationPath''],
       required = Some [''project'', ''iterationPath''] \<rparr>,
     \<lparr> name = ''list_backlogs'',
       description = ''List backlogs for a team'',
       properties = [''project'', ''team''],
       required = Some [''project'', ''team''] \<rparr>,
     \<lparr> name = ''list_backlog_work_items'',
       description = ''List work items in a backlog'',
       properties = [''project'', ''team'', ''backlogId''],
       required = Some [''project'', ''team'', ''backlogId''] \<rparr>,
     \<lparr> name = ''get_query_results'',
       description = ''Execute a saved query'',
       properties = [''project'', ''queryId''],
       required = Some [''project'', ''queryId''] \<rparr>,
     \<lparr> name = ''list_repositories'',
       description = ''List Git repositories in a project'',
       properties = [''project''],
       required = Some [''project''] \<rparr>,
     \<lparr> name = ''get_repository'',
       description = ''Get repository details'',
       properties = [''project'', ''repositoryId''],
       required = Some [''project'', ''repositoryId''] \<rparr>,
     \<lparr> name = ''list_branches'',
       description = ''List branches in a repository'',
       properties = [''project'', ''repositoryId''],
       required = Some [''project'', ''repositoryId''] \<rparr>,
     \<lparr> name = ''get_branch'',
       description = ''Get branch details'',
       properties = [''project'', ''repositoryId'', ''branchName''],
       required = Some [''project'', ''repositoryId'', ''branchName''] \<rparr>,
     \<lparr> name = ''create_branch'',
       description = ''Create a new branch'',
       properties = [''project'', ''repositoryId'', ''name'', ''sourceBranch''],
       required = Some [''project'', ''repositoryId'', ''name'', ''sourceBranch''] \<rparr>,
     \<lparr> name = ''list_commits'',
       description = ''List commits in a repository'',
       properties = [''project'', ''repositoryId'', ''top''],
       required = Some [''project'', ''repositoryId''] \<rparr>,
     \<lparr> name = ''search_commits'',
       description = ''Search commits with criteria'',
       properties = [''project'', ''repositoryId'', ''searchCriteria'', ''top''],
       required = Some [''project'', ''repositoryId'', ''searchCriteria''] \<rparr>,
     \<lparr> name = ''get_file_content'',
       description = ''Get file content from repository'',
       properties = [''project'', ''repositoryId'', ''path''],
       required = Some [''project'', ''repositoryId'', ''path''] \<rparr>,
     \<lparr> name = ''list_pull_requests'',
       description = ''List pull requests'',
       properties = [''project'', ''repositoryId'', ''status'', ''top''],
       required = Some [''project''] \<rparr>,
     \<lparr> name = ''get_pull_request'',
       description = ''Get pull request details'',
       properties = [''project'', ''repositoryId'', ''pullRequestId''],
       required = Some [''project'', ''repositoryId'', ''pullRequestId''] \<rparr>,
     \<lparr> name = ''create_pull_request'',
       description = ''Create a new pull request'',
       properties = [''project'', ''repositoryId'', ''sourceBranch'', ''targetBranch'', ''title'', ''description''],
       required = Some [''project'', ''repositoryId'', ''sourceBranch'', ''targetBranch'', ''title''] \<rparr>,
     \<lparr> name = ''update_pull_request'',
       description = ''Update a pull request'',
       properties = [''project'', ''repositoryId'', ''pullRequestId'', ''updates''],
       required = Some [''project'', ''repositoryId'', ''pullRequestId'', ''updates''] \<rparr>,
     \<lparr> name = ''update_pull_request_reviewers'',
       description = ''Update PR reviewers'',
       properties = [''project'', ''repositoryId'', ''pullRequestId'', ''reviewers''],
       required = Some [''project'', ''repositoryId'', ''pullRequestId'', ''reviewers''] \<rparr>,
     \<lparr> name = ''list_pull_request_threads'',
       description = ''List PR comment threads'',
       properties = [''project'', ''repositoryId'', ''pullRequestId''],
       required = Some [''project'', ''repositoryId'', ''pullRequestId''] \<rparr>,
     \<lparr> name = ''create_pull_request_thread'',
       description = ''Create a comment thread on PR'',
       properties = [''project'', ''repositoryId'', ''pullRequestId'', ''thread''],
       required = Some [''project'', ''repositoryId'', ''pullRequestId'', ''thread''] \<rparr>,
     \<lparr> name = ''reply_to_pull_request_comment'',
       description = ''Reply to a PR comment'',
       properties = [''project'', ''repositoryId'', ''pullRequestId'', ''threadId'', ''comment''],
       required = Some [''project'', ''repositoryId'', ''pullRequestId'', ''threadId'', ''comment''] \<rparr>,
     \<lparr> name = ''get_builds'',
       description = ''List builds'',
       properties = [''project'', ''definitionId'', ''top''],
       required = Some [''project''] \<rparr>,
     \<lparr> name = ''get_build_status'',
       description = ''Get build status'',
       properties = [''project'', ''buildId''],
       required = Some [''project'', ''buildId''] \<rparr>,
     \<lparr> name = ''get_build_log'',
       description = ''Get build logs'',
       properties = [''project'', ''buildId''],
       required = Some [''project'', ''buildId''] \<rparr>,
     \<lparr> name = ''list_build_definitions'',
       description = ''List build definitions'',
       properties = [''project''],
       required = Some [''project''] \<rparr>,
     \<lparr> name = ''list_pipelines'',
       description = ''List pipelines'',
       properties = [''project''],
       required = Some [''project''] \<rparr>,
     \<lparr> name = ''run_pipeline'',
       description = ''Trigger a pipeline run'',
       properties = [''project'', ''pipelineId'', ''parameters''],
       required = Some [''project'', ''pipelineId''] \<rparr>,
     \<lparr> name = ''get_pipeline_run'',
       description = ''Get pipeline run details'',
       properties = [''project'', ''pipelineId'', ''runId''],
       required = Some [''project'', ''pipelineId'', ''runId''] \<rparr>,
     \<lparr> name = ''list_pipeline_runs'',
       description = ''List pipeline runs'',
       properties = [''project'', ''pipelineId'', ''top''],
       required = Some [''project'', ''pipelineId''] \<rparr>,
     \<lparr> name = ''list_iterations'',
       description = ''List project iterations'',
       properties = [''project''],
       required = Some [''project''] \<rparr>,
     \<lparr> name = ''list_team_iterations'',
       description = ''List team iterations'',
       properties = [''project'', ''team''],
       required = Some [''project'', ''team''] \<rparr>,
     \<lparr> name = ''list_areas'',
       description = ''List project areas'',
       properties = [''project''],
       required = Some [''project''] \<rparr>,
     \<lparr> name = ''get_team_capacity'',
       description = ''Get team capacity for an iteration'',
       properties = [''project'', ''team'', ''iterationId''],
       required = Some [''project'', ''team'', ''iterationId''] \<rparr>,
     \<lparr> name = ''search_code'',
       description = ''Search code across repositories'',
       properties = [''searchText'', ''project'', ''repository'', ''top''],
       required = Some [''searchText''] \<rparr>,
     \<lparr> name = ''search_work_items'',
       description = ''Search work items'',
       properties = [''searchText'', ''project'', ''top''],
       required = Some [''searchText''] \<rparr>,
     \<lparr> name = ''search_wiki'',
       description = ''Search wiki pages'',
       properties = [''searchText'', ''project'', ''wikiIdentifier'', ''top''],
       required = Some [''searchText''] \<rparr>,
     \<lparr> name = ''get_identity_ids'',
       description = ''Search for user identities'',
       properties = [''searchFilter''],
       required = Some [''searchFilter''] \<rparr>,
     \<lparr> name = ''get_current_user'',
       description = ''Get current authenticated user info'',
       properties = [],
       required = None \<rparr>,
     \<lparr> name = ''list_boards'',
       description = ''List team boards'',
       properties = [''project'', ''team''],
       required = Some [''project'', ''team''] \<rparr>,
     \<lparr> name = ''list_queries'',
       description = ''List saved queries'',
       properties = [''project''],
       required = Some [''project''] \<rparr>,
     \<lparr> name = ''list_wikis'',
       description = ''List wikis in a project'',
       properties = [''project''],
       required = Some [''project''] \<rparr>,
     \<lparr> name = ''get_wiki'',
       description = ''Get wiki details'',
       properties = [''project'', ''wikiIdentifier''],
       required = Some [''project'', ''wikiIdentifier''] \<rparr>,
     \<lparr> name = ''list_wiki_pages'',
       description = ''List wiki pages'',
       properties = [''project'', ''wikiIdentifier'', ''path''],
       required = Some [''project'', ''wikiIdentifier''] \<rparr>,
     \<lparr> name = ''get_wiki_page'',
       description = ''Get wiki page content'',
       properties = [''project'', ''wikiIdentifier'', ''path''],
       required = Some [''project'', ''wikiIdentifier''] \<rparr>,
     \<lparr> name = ''create_or_update_wiki_page'',
       description = ''Create or update a wiki page'',
       properties = [''project'', ''wikiIdentifier'', ''path'', ''content'', ''comment''],
       required = Some [''project'', ''wikiIdentifier'', ''path'', ''content''] \<rparr>,
     \<lparr> name = ''list_test_plans'',
       description = ''List test plans'',
       properties = [''project''],
       required = Some [''project''] \<rparr>,
     \<lparr> name = ''create_test_plan'',
       description = ''Create a test plan'',
       properties = [''project'', ''name'', ''description''],
       required = Some [''project'', ''name''] \<rparr>,
     \<lparr> name = ''list_test_suites'',
       description = ''List test suites in a plan'',
       properties = [''project'', ''planId''],
       required = Some [''project'', ''planId''] \<rparr>,
     \<lparr> name = ''list_test_cases'',
       description = ''List test cases in a suite'',
       properties = [''project'', ''planId'', ''suiteId''],
       required = Some [''project'', ''planId'', ''suiteId''] \<rparr>,
     \<lparr> name = ''get_advanced_security_alerts'',
       description = ''Get security alerts for a repository'',
       properties = [''project'', ''repositoryId'', ''severity'', ''state'', ''top''],
       required = Some [''project'', ''repositoryId''] \<rparr>,
     \<lparr> name = ''get_advanced_security_alert_details'',
       description = ''Get details of a security alert'',
       properties = [''project'', ''repositoryId'', ''alertId''],
       required = Some [''project'', ''repositoryId'', ''alertId''] \<rparr>]"

definition mcp_cases :: "string list" where
  "mcp_cases =
    [''list_projects'', ''list_project_teams'', ''list_team_members'', ''query_work_items'',
     ''get_work_items_by_ids'', ''create_work_item'', ''update_work_item'',
     ''update_work_items_batch'', ''add_child_work_items'', ''link_work_items'',
     ''unlink_work_item'', ''add_artifact_link'', ''link_work_item_to_pull_request'',
     ''add_work_item_comment'', ''get_work_item_comments'', ''get_work_item_revisions'',
     ''list_work_item_types'', ''get_my_work_items'', ''get_work_items_for_iteration'',
     ''list_backlogs'', ''list_backlog_work_items'', ''get_query_results'',
     ''list_repositories'', ''get_repository'', ''list_branches'', ''get_my_branches'',
     ''get_branch'', ''create_branch'', ''list_commits'', ''search_commits'',
     ''get_file_content'', ''list_pull_requests'', ''list_pull_requests_by_commits'',
     ''get_pull_request'', ''create_pull_request'', ''update_pull_request'',
     ''update_pull_request_reviewers'', ''list_pull_request_threads'',
     ''list_pull_request_thread_comments'', ''create_pull_request_thread'',
     ''update_pull_request_thread'', ''reply_to_pull_request_comment'', ''get_builds'',
     ''get_build_status'', ''get_build_log'', ''get_build_log_by_id'', ''get_build_changes'',
     ''list_build_definitions'', ''get_build_definition_revisions'', ''list_pipelines'',
     ''create_pipeline'', ''run_pipeline'', ''get_pipeline_run'', ''list_pipeline_runs'',
     ''update_build_stage'', ''list_iterations'', ''create_iterations'',
     ''list_team_iterations'', ''assign_iterations'', ''get_iteration_capacities'',
     ''get_team_capacity'', ''update_team_capacity'', ''list_areas'', ''search_code'',
     ''search_work_items'', ''search_wiki'', ''get_identity_ids'', ''get_current_user'',
     ''list_boards'', ''list_queries'', ''list_wikis'', ''get_wiki'', ''list_wiki_pages'',
     ''get_wiki_page'', ''create_or_update_wiki_page'', ''list_test_plans'',
     ''create_test_plan'', ''list_test_suites'', ''create_test_suite'',
     ''add_test_cases_to_suite'', ''list_test_cases'', ''create_test_case'',
     ''update_test_case_steps'', ''get_test_results_from_build'',
     ''get_advanced_security_alerts'', ''get_advanced_security_alert_details'']"

subsection \<open>index.ts: the handlers\<close>

text \<open>The handler of \<open>ListToolsRequestSchema\<close> answers with the listing as it is.\<close>

definition ListTools_handler :: "tool list" where
  "ListTools_handler = index_tools"

text \<open>
  The result of a tool call: the text of its one content item and \<open>isError\<close> (absent in the
  source where it is \<open>False\<close> here).
\<close>

record tool_result =
  content_text :: string
  isError :: bool

text \<open>
  The operations behind the labels that are not modelled one by one are a parameter, the
  operation catalog: for a label and the arguments, what the \<open>case\<close> block does up to its
  \<open>return\<close>.
\<close>

type_synonym index_catalog = "string \<Rightarrow> json \<Rightarrow> tool_result io"

definition text_result :: "(json \<Rightarrow> string) \<Rightarrow> json \<Rightarrow> tool_result io" where
  "text_result stringify v = return \<lparr> content_text = stringify v, isError = False \<rparr>"

text \<open>
  The handler of \<open>CallToolRequestSchema\<close>. \<open>stringify v\<close> stands for
  \<open>JSON.stringify(v, null, 2)\<close>; \<open>organization\<close> is that of the client built at start-up.
\<close>

definition CallTool_switch ::
  "config \<Rightarrow> remote \<Rightarrow> index_catalog \<Rightarrow> (json \<Rightarrow> string) \<Rightarrow> string \<Rightarrow> string \<Rightarrow> json
     \<Rightarrow> tool_result io" where
  "CallTool_switch cfg env catalog stringify organization toolName args =
     (if toolName = ''list_team_members''
      then and_then
             (getTeamMembers cfg env organization (opt_prop args ''project'') (opt_prop args ''team''))
             (text_result stringify)
      else if toolName = ''query_work_items''
      then and_then
             (queryWorkItems cfg env organization (opt_prop args ''wiql'') (opt_prop args ''project''))
             (text_result stringify)
      else if toolName = ''get_work_items_by_ids''
      then and_then
             (getWorkItems cfg env organization (opt_prop args ''ids'') (opt_prop args ''project''))
             (text_result stringify)
      else if toolName = ''get_pull_request''
      then and_then
             (getPullRequestById cfg env organization (opt_prop args ''project'')
                (opt_prop args ''repositoryId'') (opt_prop args ''pullRequestId''))
             (text_result stringify)
      else if toolName = ''get_identity_ids''
      then and_then
             (searchIdentities cfg env organization (opt_prop args ''searchFilter''))
             (text_result stringify)
      else if toolName \<in> set index_cases then catalog toolName args
      else return \<lparr> content_text = ''Unknown tool: '' @ toolName, isError = True \<rparr>)"

definition CallTool_handler ::
  "config \<Rightarrow> remote \<Rightarrow> index_catalog \<Rightarrow> (json \<Rightarrow> string) \<Rightarrow> string \<Rightarrow> string \<Rightarrow> json
     \<Rightarrow> world \<Rightarrow> tool_result \<times> world" where
  "CallTool_handler cfg env catalog stringify organization toolName args w =
     (case CallTool_switch cfg env catalog stringify organization toolName args w of
        (Inr result, w1) \<Rightarrow> (result, w1)
      | (Inl error, w1) \<Rightarrow> (\<lparr> content_text = ''Error: '' @ message error, isError = True \<rparr>, w1))"

subsection \<open>functions/mcp.ts: \<open>executeToolInternal\<close> and the route \<open>tools/{toolName}\<close>\<close>

type_synonym mcp_catalog = "string \<Rightarrow> json \<Rightarrow> json io"

definition executeToolInternal ::
  "config \<Rightarrow> remote \<Rightarrow> mcp_catalog \<Rightarrow> string \<Rightarrow> string \<Rightarrow> json \<Rightarrow> json io" where
  "executeToolInternal cfg env catalog organization toolName args =
     (if toolName = ''list_team_members''
      then and_then (liftE (get_prop args ''project'')) (\<lambda>project.
           and_then (liftE (get_prop args ''team'')) (\<lambda>team.
             getTeamMembers cfg env organization project team))
      else if toolName = ''query_work_items''
      then and_then (liftE (get_prop args ''wiql'')) (\<lambda>wiql.
           and_then (liftE (get_prop args ''project'')) (\<lambda>project.
             queryWorkItems cfg env organization wiql project))
      else if toolName = ''get_work_items_by_ids''
      then and_then (liftE (get_prop args ''ids'')) (\<lambda>ids.
           and_then (liftE (get_prop args ''project'')) (\<lambda>project.
             getWorkItems cfg env organization ids project))
      else if toolName = ''get_pull_request''
      then and_then (liftE (get_prop args ''project'')) (\<lambda>project.
           and_then (liftE (get_prop args ''repositoryId'')) (\<lambda>repositoryId.
           and_then (liftE (get_prop args ''pullRequestId'')) (\<lambda>pullRequestId.
             getPullRequestById cfg env organization project repositoryId pullRequestId)))
      else if toolName = ''get_identity_ids''
      then and_then (liftE (get_prop args ''searchFilter'')) (\<lambda>searchFilter.
             searchIdentities cfg env organization searchFilter)
      else if toolName = ''get_advanced_security_alert_details''
      then and_then (liftE (get_prop args ''project'')) (\<lambda>project.
           and_then (liftE (get_prop args ''repositoryId'')) (\<lambda>repositoryId.
           and_then (liftE (get_prop args ''alertId'')) (\<lambda>alertId.
             getAdvancedSecurityAlertDetails cfg env organization project repositoryId alertId)))
      else if toolName \<in> set mcp_cases then catalog toolName args
      else throw (JsError (''Unknown tool: '' @ toolName) None))"

text \<open>The module's \<open>getClient\<close>: the client is built at the first use and kept.\<close>

definition mcp_getClient :: "config \<Rightarrow> string io" where
  "mcp_getClient cfg w =
     (case azureClient w of
        Some organization \<Rightarrow> (Inr organization, w)
      | None \<Rightarrow>
          (case new_AzureDevOpsClient cfg of
             Inl e \<Rightarrow> (Inl e, w)
           | Inr organization \<Rightarrow> (Inr organization, w\<lparr> azureClient := Some organization \<rparr>)))"

record http_response =
  status :: nat
  jsonBody :: json

text \<open>
  The handler of \<open>POST tools/{toolName}\<close>; \<open>body\<close> is what \<open>request.json()\<close> gives, a parse
  error or the arguments.
\<close>

definition executeTool_handler ::
  "config \<Rightarrow> remote \<Rightarrow> mcp_catalog \<Rightarrow> string \<Rightarrow> js_error + json \<Rightarrow> world
     \<Rightarrow> http_response \<times> world" where
  "executeTool_handler cfg env catalog toolName body w =
     (case and_then (liftE body) (\<lambda>args.
           and_then (mcp_getClient cfg) (\<lambda>client.
           and_then (executeToolInternal cfg env catalog client toolName args) (\<lambda>result.
             return \<lparr> status = 200,
                      jsonBody = JObj [(''success'', JBool True), (''result'', result)] \<rparr>))) w of
        (Inr response, w1) \<Rightarrow> (response, w1)
      | (Inl error, w1) \<Rightarrow>
          (\<lparr> status = 500,
             jsonBody = JObj [(''success'', JBool False), (''error'', JStr (message error))] \<rparr>, w1))"

subsection \<open>What the listings are checked for\<close>

text \<open>
  A descriptor is well described when its description is not empty and every name under
  \<open>required\<close> is a declared property; a name is listed when a well-described descriptor of
  that name is in the listing.
\<close>

definition well_described :: "tool \<Rightarrow> bool" where
  "well_described t =
     (description t \<noteq> []
      \<and> (case required t of None \<Rightarrow> True | Some rs \<Rightarrow> list_all (\<lambda>r. r \<in> set (properties t)) rs))"

definition listed :: "tool list \<Rightarrow> string \<Rightarrow> bool" where
  "listed tools n = list_ex (\<lambda>t. name t = n \<and> well_described t) tools"

section \<open>Example configurations and states\<close>

definition interactive_cfg :: config where
  "interactive_cfg =
     \<lparr> AZURE_DEVOPS_PAT = None, AZURE_DEVOPS_ORG_URL = Some ''https://dev.azure.com/contoso'' \<rparr>"

definition pat_cfg :: config where
  "pat_cfg =
     \<lparr> AZURE_DEVOPS_PAT = Some ''abc'', AZURE_DEVOPS_ORG_URL = Some ''https://dev.azure.com/contoso'' \<rparr>"

text \<open>A cache holding a token that expires at the given time, nothing in flight.\<close>

definition cached_until :: "instant \<Rightarrow> cred_state" where
  "cached_until t = init_cred\<lparr> cachedToken := Some (''cached'', t) \<rparr>"

text \<open>The state after three callers found the cache empty, one after the other.\<close>

definition after_three_calls :: cred_state where
  "after_three_calls =
     \<lparr> sharedCredential = True, cachedToken = None, tokenPromise = Some 0,
       settled = (\<lambda>_. None), nextPromise = 1, exchanges = 1 \<rparr>"

text \<open>Two answers of the resource server, and a remote side that gives one answer to everything.\<close>

definition not_found :: js_error where
  "not_found = JsError ''Request failed with status code 404'' (Some 404)"

definition server_error :: js_error where
  "server_error = JsError ''Request failed with status code 500'' (Some 500)"

definition answering :: "js_error + json \<Rightarrow> remote" where
  "answering a = \<lparr> idp = (\<lambda>k. (0, NullResponse)), api = (\<lambda>r. (0, a)) \<rparr>"

text \<open>The world of \<open>pat_cfg\<close> once the client has built its HTTP instance, and after one request.\<close>

definition pat_world :: world where
  "pat_world = \<lparr> cred = init_cred, clock = 0, azureClient = None,
                 axiosInstance = Some ''Basic OmFiYw=='', initialized = True, requests = [] \<rparr>"

definition get_request :: "string \<Rightarrow> http_request" where
  "get_request path =
     \<lparr> req_method = ''GET'', req_url = ''https://dev.azure.com/contoso'' @ path,
       req_authorization = ''Basic OmFiYw=='', req_body = JUndefined \<rparr>"

definition after_request :: "http_request \<Rightarrow> world" where
  "after_request r = pat_world\<lparr> requests := [r] \<rparr>"

definition example_args :: json where
  "example_args =
     JObj [(''project'', JStr ''web''), (''team'', JStr ''core''), (''repositoryId'', JStr ''api''),
           (''pullRequestId'', JNum 7), (''alertId'', JStr ''12''),
           (''wiql'', JStr ''SELECT [System.Id] FROM WorkItems''), (''ids'', JArr []),
           (''searchFilter'', JStr ''ann lee'')]"

text \<open>A stand-in for \<open>JSON.stringify(v, null, 2)\<close>, right on the values the examples print.\<close>

definition example_stringify :: "json \<Rightarrow> string" where
  "example_stringify v = (if v = JArr [] then ''[]'' else if v = JNull then ''null'' else js_toString v)"

definition wiql_request :: http_request where
  "wiql_request =
     \<lparr> req_method = ''POST'', req_url = ''https://dev.azure.com/contoso/web/_apis/wit/wiql?api-version=7.1'',
       req_authorization = ''Basic OmFiYw=='',
       req_body = JObj [(''query'', JStr ''SELECT [System.Id] FROM WorkItems'')] \<rparr>"

text \<open>The world of \<open>pat_cfg\<close> in which functions/mcp.ts has built its client.\<close>

definition mcp_world :: world where
  "mcp_world = (init_world 0)\<lparr> azureClient := Some ''contoso'' \<rparr>"

definition mcp_after_request :: "http_request \<Rightarrow> world" where
  "mcp_after_request r = pat_world\<lparr> azureClient := Some ''contoso'', requests := [r] \<rparr>"

section \<open>Properties of the credential provider\<close>

lemma getAccessToken_join:
  "\<not> USE_PAT cfg \<Longrightarrow> \<not> cache_valid s now \<Longrightarrow> tokenPromise s = Some p \<Longrightarrow>
   getAccessToken cfg now s = (Pending p, s)"
  by (simp add: getAccessToken_def)

lemma getAccessToken_start:
  "\<not> USE_PAT cfg \<Longrightarrow> \<not> cache_valid s now \<Longrightarrow> tokenPromise s = None \<Longrightarrow>
   getAccessToken cfg now s =
     (Pending (nextPromise s),
      s\<lparr> sharedCredential := True, exchanges := Suc (exchanges s),
         tokenPromise := Some (nextPromise s), nextPromise := Suc (nextPromise s) \<rparr>)"
  by (simp add: getAccessToken_def)

lemma calls_join:
  "\<not> USE_PAT cfg \<Longrightarrow> tokenPromise s = Some p \<Longrightarrow> \<forall>t \<in> set ts. \<not> cache_valid s t \<Longrightarrow>
   calls cfg ts s = (replicate (length ts) (Pending p), s)"
  by (induction ts) (simp_all add: getAccessToken_join)

lemma cache_valid_start [simp]:
  "cache_valid (s\<lparr> sharedCredential := a, exchanges := b, tokenPromise := c, nextPromise := d \<rparr>) t
     = cache_valid s t"
  by (simp add: cache_valid_def)

lemma calls_start:
  assumes "\<not> USE_PAT cfg" and "tokenPromise s = None" and "\<forall>t \<in> set (t0 # ts). \<not> cache_valid s t"
  shows "calls cfg (t0 # ts) s =
           (replicate (Suc (length ts)) (Pending (nextPromise s)),
            s\<lparr> sharedCredential := True, exchanges := Suc (exchanges s),
               tokenPromise := Some (nextPromise s), nextPromise := Suc (nextPromise s) \<rparr>)"
proof -
  let ?s1 = "s\<lparr> sharedCredential := True, exchanges := Suc (exchanges s),
                tokenPromise := Some (nextPromise s), nextPromise := Suc (nextPromise s) \<rparr>"
  have first: "getAccessToken cfg t0 s = (Pending (nextPromise s), ?s1)"
    using assms by (simp add: getAccessToken_start)
  have "\<forall>t \<in> set ts. \<not> cache_valid ?s1 t"
    using assms(3) by simp
  then have "calls cfg ts ?s1 = (replicate (length ts) (Pending (nextPromise s)), ?s1)"
    using assms(1) by (intro calls_join) simp_all
  with first show ?thesis by simp
qed

lemma calls_miss:
  assumes "\<not> USE_PAT cfg" and "ts \<noteq> []" and "\<forall>t \<in> set ts. \<not> cache_valid s t"
  shows "\<exists>p s'. calls cfg ts s = (replicate (length ts) (Pending p), s')
            \<and> tokenPromise s' = Some p
            \<and> exchanges s' = (if tokenPromise s = None then Suc (exchanges s) else exchanges s)"
proof (cases "tokenPromise s")
  case None
  obtain t0 ts' where ts: "ts = t0 # ts'" using assms(2) by (cases ts) auto
  show ?thesis using calls_start [OF assms(1) None, of t0 ts'] assms(3) None
    unfolding ts by simp
next
  case (Some q)
  show ?thesis using calls_join [OF assms(1) Some assms(3)] Some by simp
qed

lemma finish_settles:
  "tokenPromise s = Some p \<Longrightarrow>
   settled (finishTokenRequest now r s) p = Some (fst (tokenRequestBody now r s))"
  by (cases r) (simp_all add: finishTokenRequest_def tokenRequestBody_def)

lemma finish_clears:
  "tokenPromise (finishTokenRequest now r s) = None"
  by (cases r; cases "tokenPromise s") (simp_all add: finishTokenRequest_def tokenRequestBody_def)

lemma finish_exchanges:
  "exchanges (finishTokenRequest now r s) = exchanges s"
  by (cases r; cases "tokenPromise s") (simp_all add: finishTokenRequest_def tokenRequestBody_def)

lemma finish_nextPromise:
  "nextPromise (finishTokenRequest now r s) = nextPromise s"
  by (cases r; cases "tokenPromise s") (simp_all add: finishTokenRequest_def tokenRequestBody_def)

lemma miss_later:
  "\<not> cache_valid s t0 \<Longrightarrow> t0 \<le> later \<Longrightarrow> \<not> cache_valid s later"
  by (auto simp: cache_valid_def split: option.splits)

lemma finish_failure_cache:
  "r = Rejected e \<or> r = NullResponse \<Longrightarrow> cachedToken (finishTokenRequest now r s) = cachedToken s"
  by (cases "tokenPromise s") (auto simp: finishTokenRequest_def tokenRequestBody_def)

lemma failure_outcome:
  "r = Rejected e \<or> r = NullResponse \<Longrightarrow> \<exists>err. fst (tokenRequestBody now r s) = Inl err"
  by (auto simp: tokenRequestBody_def)

lemma interactive_cfg_mode: "\<not> USE_PAT interactive_cfg"
  by (simp add: USE_PAT_def interactive_cfg_def)

lemma pat_cfg_mode: "USE_PAT pat_cfg"
  by (simp add: USE_PAT_def pat_cfg_def)

lemma three_callers_run:
  "calls interactive_cfg [1000, 1001, 1002] init_cred
     = ([Pending 0, Pending 0, Pending 0], after_three_calls)"
  by (simp add: getAccessToken_def interactive_cfg_mode cache_valid_def
      init_cred_def after_three_calls_def)

lemma three_callers_miss: "\<forall>t \<in> set [1000, 1001, 1002]. \<not> cache_valid init_cred t"
  by (simp add: cache_valid_def init_cred_def)

text \<open>
  Claim C1 (single flight). In interactive mode, let any number of callers, at least one, call
  \<open>getAccessToken\<close> while no exchange answers in between, each finding the cache missing or
  within 60 seconds of expiry. Then all of them are returned one and the same pending promise;
  together they start exactly one exchange when none was in flight (and none when one was:
  they join it); and when that exchange answers, whatever the answer and the time, no further
  exchange is made and every caller receives the same outcome: the token of the answer, or
  the same failure.
\<close>

theorem single_flight:
  assumes "\<not> USE_PAT cfg" and "ts \<noteq> []" and "\<forall>t \<in> set ts. \<not> cache_valid s t"
    and "calls cfg ts s = (rs, s')"
  shows "\<exists>p. rs = replicate (length ts) (Pending p)
          \<and> exchanges s' = (if tokenPromise s = None then Suc (exchanges s) else exchanges s)
          \<and> (\<forall>now r. exchanges (finishTokenRequest now r s') = exchanges s'
                \<and> (\<exists>v. (\<forall>x \<in> set rs. awaited (finishTokenRequest now r s') x = Some v)
                      \<and> (\<forall>tok e. r = AccessToken tok e \<longrightarrow> v = Inr tok)))"
proof -
  obtain p where rs: "rs = replicate (length ts) (Pending p)" and tp: "tokenPromise s' = Some p"
    and ex: "exchanges s' = (if tokenPromise s = None then Suc (exchanges s) else exchanges s)"
    using calls_miss [OF assms(1-3)] assms(4) by auto
  have same: "\<exists>v. (\<forall>x \<in> set rs. awaited (finishTokenRequest now r s') x = Some v)
              \<and> (\<forall>tok e. r = AccessToken tok e \<longrightarrow> v = Inr tok)" for now r
  proof (intro exI conjI ballI allI impI)
    fix x assume "x \<in> set rs"
    then have "x = Pending p" using rs by simp
    then show "awaited (finishTokenRequest now r s') x = Some (fst (tokenRequestBody now r s'))"
      by (simp add: awaited_def finish_settles [OF tp])
  next
    fix tok e assume "r = AccessToken tok e"
    then show "fst (tokenRequestBody now r s') = Inr tok" by (simp add: tokenRequestBody_def)
  qed
  show ?thesis
  proof (rule exI [of _ p], intro conjI allI)
    show "rs = replicate (length ts) (Pending p)" by (rule rs)
    show "exchanges s' = (if tokenPromise s = None then Suc (exchanges s) else exchanges s)"
      by (rule ex)
    show "exchanges (finishTokenRequest now r s') = exchanges s'" for now r
      by (rule finish_exchanges)
    show "\<exists>v. (\<forall>x \<in> set rs. awaited (finishTokenRequest now r s') x = Some v)
              \<and> (\<forall>tok e. r = AccessToken tok e \<longrightarrow> v = Inr tok)" for now r
      by (rule same)
  qed
qed

theorem single_flight_witness:
  "\<not> USE_PAT interactive_cfg
   \<and> \<not> cache_valid init_cred 1000 \<and> \<not> cache_valid init_cred 1001 \<and> \<not> cache_valid init_cred 1002
   \<and> calls interactive_cfg [1000, 1001, 1002] init_cred
       = ([Pending 0, Pending 0, Pending 0], after_three_calls)
   \<and> exchanges after_three_calls = 1
   \<and> exchanges (finishTokenRequest 5000 (AccessToken ''fresh'' 9000000) after_three_calls) = 1
   \<and> awaited (finishTokenRequest 5000 (AccessToken ''fresh'' 9000000) after_three_calls) (Pending 0)
       = Some (Inr ''fresh'')"
proof -
  have ne: "[1000, 1001, 1002 :: instant] \<noteq> []" by simp
  have one: "exchanges after_three_calls = 1" by (simp add: after_three_calls_def)
  obtain p where
    all: "\<forall>now r. exchanges (finishTokenRequest now r after_three_calls) = exchanges after_three_calls
            \<and> (\<exists>v. (\<forall>x \<in> set [Pending 0, Pending 0, Pending 0].
                        awaited (finishTokenRequest now r after_three_calls) x = Some v)
                  \<and> (\<forall>tok e. r = AccessToken tok e \<longrightarrow> v = Inr tok))"
    using single_flight [OF interactive_cfg_mode ne three_callers_miss three_callers_run] by blast
  then obtain v where
    v: "\<forall>x \<in> set [Pending 0, Pending 0, Pending 0].
          awaited (finishTokenRequest 5000 (AccessToken ''fresh'' 9000000) after_three_calls) x = Some v"
    and tok: "\<forall>tok e. AccessToken ''fresh'' 9000000 = AccessToken tok e \<longrightarrow> v = Inr tok"
    by blast
  from tok have "v = Inr ''fresh''" by simp
  with v have last:
    "awaited (finishTokenRequest 5000 (AccessToken ''fresh'' 9000000) after_three_calls) (Pending 0)
       = Some (Inr ''fresh'')" by simp
  from all one
  have still: "exchanges (finishTokenRequest 5000 (AccessToken ''fresh'' 9000000) after_three_calls) = 1"
    by simp
  have miss: "\<not> cache_valid init_cred 1000" "\<not> cache_valid init_cred 1001"
    "\<not> cache_valid init_cred 1002"
    using three_callers_miss by simp_all
  show ?thesis
    by (intro conjI) (rule interactive_cfg_mode miss three_callers_run one still last)+
qed

text \<open>
  Claim C3 (cache validity boundary). In interactive mode, with a token in the cache: if it
  expires strictly more than 60000 ms after the time of the call, the call returns it at once
  and changes nothing, so no exchange is made; if it expires 60000 ms after the call or
  sooner, the call does not return it but the promise of an acquisition, which it starts
  itself, as one more exchange, unless one is already in flight.
\<close>

theorem cache_validity_boundary:
  assumes "\<not> USE_PAT cfg" and "cachedToken s = Some (tok, expiresOn)"
  shows "(now + 60000 < expiresOn \<longrightarrow> getAccessToken cfg now s = (Resolved tok, s))
       \<and> (expiresOn \<le> now + 60000 \<longrightarrow>
            (\<exists>p. fst (getAccessToken cfg now s) = Pending p
                \<and> tokenPromise (snd (getAccessToken cfg now s)) = Some p
                \<and> exchanges (snd (getAccessToken cfg now s))
                     = (if tokenPromise s = None then Suc (exchanges s) else exchanges s)))"
  using assms
  by (cases "tokenPromise s") (auto simp: getAccessToken_def cache_valid_def cached_value_def)

theorem cache_validity_boundary_witness:
  "getAccessToken interactive_cfg 1000000 (cached_until 1061000)
     = (Resolved ''cached'', cached_until 1061000)
   \<and> (\<exists>p. fst (getAccessToken interactive_cfg 1000000 (cached_until 1059000)) = Pending p
        \<and> exchanges (snd (getAccessToken interactive_cfg 1000000 (cached_until 1059000))) = 1)
   \<and> (\<exists>p. fst (getAccessToken interactive_cfg 1000000 (cached_until 1060000)) = Pending p
        \<and> exchanges (snd (getAccessToken interactive_cfg 1000000 (cached_until 1060000))) = 1)"
proof -
  have c: "cachedToken (cached_until t) = Some (''cached'', t)" for t
    by (simp add: cached_until_def)
  have n: "tokenPromise (cached_until t) = None" "exchanges (cached_until t) = 0" for t
    by (simp_all add: cached_until_def init_cred_def)
  show ?thesis
    using cache_validity_boundary [OF interactive_cfg_mode c, of 1000000 1061000]
      cache_validity_boundary [OF interactive_cfg_mode c, of 1000000 1059000]
      cache_validity_boundary [OF interactive_cfg_mode c, of 1000000 1060000]
    by (auto simp: n)
qed

text \<open>
  Claim C7 (a failed exchange). In interactive mode, let an initiator at time \<open>t0\<close> and any
  callers after it find the cache missing while nothing is in flight, and let the exchange
  then fail, by a rejection or by an empty answer. Then the in-flight marker is cleared, the
  cached token is what it was, the initiator and every joined caller receive one and the same
  failure, and a call at any later time starts a new exchange, the second one, on a new
  promise.
\<close>

theorem exchange_failure:
  assumes "\<not> USE_PAT cfg" and "tokenPromise s = None"
    and "\<forall>t \<in> set (t0 # ts). \<not> cache_valid s t"
    and "calls cfg (t0 # ts) s = (rs, s1)"
    and "r = Rejected e \<or> r = NullResponse"
    and "s2 = finishTokenRequest now r s1"
    and "t0 \<le> later"
  shows "tokenPromise s2 = None \<and> cachedToken s2 = cachedToken s
       \<and> (\<exists>err. \<forall>x \<in> set rs. awaited s2 x = Some (Inl err))
       \<and> (\<exists>p'. fst (getAccessToken cfg later s2) = Pending p' \<and> Pending p' \<notin> set rs
              \<and> tokenPromise (snd (getAccessToken cfg later s2)) = Some p'
              \<and> exchanges (snd (getAccessToken cfg later s2)) = Suc (exchanges s2)
              \<and> exchanges s2 = Suc (exchanges s))"
proof -
  let ?p = "nextPromise s"
  have c: "calls cfg (t0 # ts) s = (replicate (Suc (length ts)) (Pending ?p),
            s\<lparr> sharedCredential := True, exchanges := Suc (exchanges s),
               tokenPromise := Some ?p, nextPromise := Suc ?p \<rparr>)"
    by (rule calls_start [OF assms(1-3)])
  with assms(4) have rs: "rs = replicate (Suc (length ts)) (Pending ?p)"
    and s1: "s1 = s\<lparr> sharedCredential := True, exchanges := Suc (exchanges s),
               tokenPromise := Some ?p, nextPromise := Suc ?p \<rparr>" by simp_all
  have tp1: "tokenPromise s1 = Some ?p" by (simp add: s1)
  have cleared: "tokenPromise s2 = None" by (simp add: assms(6) finish_clears)
  have cache: "cachedToken s2 = cachedToken s"
    using finish_failure_cache [OF assms(5)] by (simp add: assms(6) s1)
  obtain err where err: "fst (tokenRequestBody now r s1) = Inl err"
    using failure_outcome [OF assms(5)] by blast
  have same: "\<forall>x \<in> set rs. awaited s2 x = Some (Inl err)"
    using err by (simp add: rs awaited_def assms(6) finish_settles [OF tp1])
  have "\<not> cache_valid s t0" using assms(3) by simp
  then have "\<not> cache_valid s later" using assms(7) by (rule miss_later)
  then have miss: "\<not> cache_valid s2 later" using cache by (simp add: cache_valid_def)
  have np: "nextPromise s2 = Suc ?p" by (simp add: assms(6) finish_nextPromise s1)
  have ex2: "exchanges s2 = Suc (exchanges s)" by (simp add: assms(6) finish_exchanges s1)
  have fresh: "getAccessToken cfg later s2 =
     (Pending (nextPromise s2),
      s2\<lparr> sharedCredential := True, exchanges := Suc (exchanges s2),
         tokenPromise := Some (nextPromise s2), nextPromise := Suc (nextPromise s2) \<rparr>)"
    by (rule getAccessToken_start [OF assms(1) miss cleared])
  have "Pending (nextPromise s2) \<notin> set rs" by (simp add: rs np)
  with fresh cleared cache same ex2 show ?thesis by auto
qed

theorem exchange_failure_witness:
  "tokenPromise (finishTokenRequest 5000 NullResponse after_three_calls) = None
   \<and> cachedToken (finishTokenRequest 5000 NullResponse after_three_calls) = cachedToken init_cred
   \<and> (\<exists>err. \<forall>x \<in> set [Pending 0, Pending 0, Pending 0].
         awaited (finishTokenRequest 5000 NullResponse after_three_calls) x = Some (Inl err))
   \<and> (\<exists>p'. fst (getAccessToken interactive_cfg 6000
                   (finishTokenRequest 5000 NullResponse after_three_calls)) = Pending p'
          \<and> Pending p' \<notin> set [Pending 0, Pending 0, Pending 0]
          \<and> tokenPromise (snd (getAccessToken interactive_cfg 6000
                   (finishTokenRequest 5000 NullResponse after_three_calls))) = Some p'
          \<and> exchanges (snd (getAccessToken interactive_cfg 6000
                   (finishTokenRequest 5000 NullResponse after_three_calls)))
               = Suc (exchanges (finishTokenRequest 5000 NullResponse after_three_calls))
          \<and> exchanges (finishTokenRequest 5000 NullResponse after_three_calls)
               = Suc (exchanges init_cred))"
proof -
  have none: "tokenPromise init_cred = None" by (simp add: init_cred_def)
  have fails: "NullResponse = Rejected (JsError [] None) \<or> NullResponse = NullResponse" by simp
  have le: "(1000 :: instant) \<le> 6000" by simp
  show ?thesis
    using exchange_failure [OF interactive_cfg_mode none three_callers_miss three_callers_run
          fails refl le, of 5000]
    by simp
qed

section \<open>Properties of the backend client and of dispatch\<close>

text \<open>
  The dispatch that awaits alone receives what the promise it was returned is settled with.
\<close>

lemma getAccessToken_pending:
  "getAccessToken cfg now s = (Pending p, c) \<Longrightarrow> tokenPromise c = Some p"
  by (auto simp: getAccessToken_def split: if_splits option.splits)

lemma awaitAccessToken_settled:
  assumes "getAccessToken cfg (clock w) (cred w) = (Pending p, c)"
  shows "awaited (cred (snd (awaitAccessToken cfg env w))) (Pending p)
           = Some (fst (awaitAccessToken cfg env w))"
  using assms finish_settles [OF getAccessToken_pending [OF assms]]
  by (simp add: awaitAccessToken_def awaited_def split: prod.splits)

lemma io_simps [simp]:
  "return a w = (Inr a, w)" "throw e w = (Inl e, w)" "liftE r w = (r, w)"
  by (simp_all add: return_def throw_def liftE_def)

lemma getTeamMembers_error:
  assumes "getClient cfg env w = (Inr (), w1)"
    and "client_request env org ''GET'' (teamMembers_url project team) JUndefined w1 = (Inl e, w2)"
  shows "getTeamMembers cfg env org project team w
           = (if response_status e = Some 404 then Inr (JArr []) else Inl e, w2)"
  unfolding getTeamMembers_def
  by (simp add: and_then_def try_catch_def assms)

lemma getPullRequestById_error:
  assumes "getClient cfg env w = (Inr (), w1)"
    and "client_request env org ''GET'' (pullRequest_url project repositoryId pullRequestId)
           JUndefined w1 = (Inl e, w2)"
  shows "getPullRequestById cfg env org project repositoryId pullRequestId w = (Inl e, w2)"
  unfolding getPullRequestById_def
  by (simp add: and_then_def assms)

lemma getAdvancedSecurityAlertDetails_error:
  assumes "getClient cfg env w = (Inr (), w1)"
    and "client_request env org ''GET'' (alert_url project repositoryId alertId)
           JUndefined w1 = (Inl e, w2)"
  shows "getAdvancedSecurityAlertDetails cfg env org project repositoryId alertId w
           = (if response_status e = Some 404 then Inr JNull else Inl e, w2)"
  unfolding getAdvancedSecurityAlertDetails_def
  by (simp add: and_then_def try_catch_def assms)

lemma getWorkItems_empty:
  "getWorkItems cfg env org (JArr []) project w = (Inr (JArr []), w)"
  by (simp add: getWorkItems_def and_then_def)

lemma queryWorkItems_empty:
  assumes "getClient cfg env w = (Inr (), w1)"
    and "client_request env org ''POST'' (wiql_url project) (JObj [(''query'', wiql)]) w1
           = (Inr data, w2)"
    and "get_prop data ''workItems'' = Inr workItemRefs"
    and "workItemRefs = JArr [] \<or> \<not> truthy workItemRefs"
  shows "queryWorkItems cfg env org wiql project w = (Inr (JArr []), w2)"
proof -
  have stop: "\<not> truthy workItemRefs \<or> get_prop workItemRefs ''length'' = Inr (JNum 0)"
    using assms(4) by auto
  show ?thesis
    unfolding queryWorkItems_def
    using stop
    by (auto simp: and_then_def assms(1-3))
qed

lemma awaitAccessToken_requests:
  "requests (snd (awaitAccessToken cfg env w)) = requests w"
  by (simp add: awaitAccessToken_def split: prod.splits promise.splits)

lemma ensureInitialized_requests:
  "requests (snd (ensureInitialized cfg env w)) = requests w"
  using awaitAccessToken_requests [of cfg env w]
  by (cases "awaitAccessToken cfg env w"; cases "getAuthHeader cfg")
     (auto simp: ensureInitialized_def and_then_def split: sum.splits prod.splits)

lemma getClient_requests:
  "requests (snd (getClient cfg env w)) = requests w"
proof -
  obtain r w1 where e: "ensureInitialized cfg env w = (r, w1)" by (cases "ensureInitialized cfg env w")
  have w1: "requests w1 = requests w" using ensureInitialized_requests [of cfg env w] e by simp
  show ?thesis
  proof (cases r)
    case (Inl err)
    then show ?thesis using e w1 by (simp add: getClient_def and_then_def)
  next
    case (Inr u)
    obtain r2 w2 where a: "awaitAccessToken cfg env w1 = (r2, w2)" by (cases "awaitAccessToken cfg env w1")
    have "requests w2 = requests w1" using awaitAccessToken_requests [of cfg env w1] a by simp
    then show ?thesis using e w1 Inr a
      by (cases r2) (simp_all add: getClient_def and_then_def)
  qed
qed

lemma client_request_requests:
  "client_request env org m path body w = (r, w2) \<Longrightarrow>
   requests w2 = requests w @ [\<lparr> req_method = m, req_url = ''https://dev.azure.com/'' @ org @ path,
       req_authorization = (case axiosInstance w of None \<Rightarrow> [] | Some h \<Rightarrow> h), req_body = body \<rparr>]"
  by (auto simp: client_request_def Let_def split: prod.splits)

lemma pat_getClient: "getClient pat_cfg env (init_world 0) = (Inr (), pat_world)"
proof -
  have pat: "PAT_value pat_cfg = ''abc''" by (simp add: PAT_value_def pat_cfg_def)
  show ?thesis
    by (simp add: getClient_def ensureInitialized_def and_then_def init_world_def pat_world_def
        pat_cfg_mode getAuthHeader_def pat b64_digit_def b64_alphabet_def)
qed



lemma example_paths:
  "teamMembers_url (JStr ''web'') (JStr ''core'') = ''/_apis/projects/web/teams/core/members?api-version=7.1''"
  "pullRequest_url (JStr ''web'') (JStr ''api'') (JNum 7)
     = ''/web/_apis/git/repositories/api/pullrequests/7?api-version=7.1''"
  "alert_url (JStr ''web'') (JStr ''api'') (JStr ''12'')
     = ''/web/_apis/alert/repositories/api/alerts/12?api-version=7.1-preview.1''"
  "wiql_url (JStr ''web'') = ''/web/_apis/wit/wiql?api-version=7.1''"
  by code_simp+

lemma pat_client_request:
  "client_request (answering a) ''contoso'' ''GET'' path JUndefined pat_world
     = (a, after_request (get_request path))"
  by (simp add: client_request_def answering_def pat_world_def after_request_def get_request_def)

lemma example_args_props:
  "opt_prop example_args ''project'' = JStr ''web''"
  "opt_prop example_args ''team'' = JStr ''core''"
  "opt_prop example_args ''repositoryId'' = JStr ''api''"
  "opt_prop example_args ''pullRequestId'' = JNum 7"
  "opt_prop example_args ''wiql'' = JStr ''SELECT [System.Id] FROM WorkItems''"
  "opt_prop example_args ''ids'' = JArr []"
  "get_prop example_args ''project'' = Inr (JStr ''web'')"
  "get_prop example_args ''repositoryId'' = Inr (JStr ''api'')"
  "get_prop example_args ''alertId'' = Inr (JStr ''12'')"
  by (simp_all add: opt_prop_def example_args_def)

text \<open>
  Claim C4 (not-found normalisation). Once the client holds its authorization, let the
  resource server reject the team-members request with error \<open>e\<close> and the pull-request
  request with error \<open>e'\<close>. Then \<open>getTeamMembers\<close> returns the empty array when the status
  of \<open>e\<close> is 404 and raises \<open>e\<close> itself otherwise, while \<open>getPullRequestById\<close> raises
  \<open>e'\<close> itself whatever its status, 404 included. At the call handler of index.ts the
  first is a result that is not an error, the text of the empty array (or, for another
  status, an error result with the message of \<open>e\<close>), and the second is an error result with
  the message of \<open>e'\<close>.
\<close>

theorem not_found_normalization:
  assumes "getClient cfg env w = (Inr (), w1)"
    and "client_request env org ''GET'' (teamMembers_url project team) JUndefined w1 = (Inl e, w2)"
    and "client_request env org ''GET'' (pullRequest_url project repositoryId pullRequestId)
           JUndefined w1 = (Inl e', w3)"
    and "opt_prop args ''project'' = project" and "opt_prop args ''team'' = team"
    and "opt_prop args ''repositoryId'' = repositoryId"
    and "opt_prop args ''pullRequestId'' = pullRequestId"
  shows "getTeamMembers cfg env org project team w
           = (if response_status e = Some 404 then Inr (JArr []) else Inl e, w2)
       \<and> getPullRequestById cfg env org project repositoryId pullRequestId w = (Inl e', w3)
       \<and> CallTool_handler cfg env catalog stringify org ''list_team_members'' args w
           = (if response_status e = Some 404
              then \<lparr> content_text = stringify (JArr []), isError = False \<rparr>
              else \<lparr> content_text = ''Error: '' @ message e, isError = True \<rparr>, w2)
       \<and> CallTool_handler cfg env catalog stringify org ''get_pull_request'' args w
           = (\<lparr> content_text = ''Error: '' @ message e', isError = True \<rparr>, w3)"
proof -
  have tm: "getTeamMembers cfg env org project team w
           = (if response_status e = Some 404 then Inr (JArr []) else Inl e, w2)"
    by (rule getTeamMembers_error [OF assms(1,2)])
  have pr: "getPullRequestById cfg env org project repositoryId pullRequestId w = (Inl e', w3)"
    by (rule getPullRequestById_error [OF assms(1,3)])
  have d1: "CallTool_handler cfg env catalog stringify org ''list_team_members'' args w
           = (if response_status e = Some 404
              then \<lparr> content_text = stringify (JArr []), isError = False \<rparr>
              else \<lparr> content_text = ''Error: '' @ message e, isError = True \<rparr>, w2)"
    by (simp add: CallTool_handler_def CallTool_switch_def assms(4,5) and_then_def tm
        text_result_def)
  have d2: "CallTool_handler cfg env catalog stringify org ''get_pull_request'' args w
           = (\<lparr> content_text = ''Error: '' @ message e', isError = True \<rparr>, w3)"
    by (simp add: CallTool_handler_def CallTool_switch_def assms(4,6,7) and_then_def pr)
  from tm pr d1 d2 show ?thesis by simp
qed

theorem not_found_normalization_witness:
  "getTeamMembers pat_cfg (answering (Inl not_found)) ''contoso'' (JStr ''web'') (JStr ''core'')
       (init_world 0)
     = (Inr (JArr []),
        after_request (get_request ''/_apis/projects/web/teams/core/members?api-version=7.1''))
   \<and> getPullRequestById pat_cfg (answering (Inl not_found)) ''contoso'' (JStr ''web'') (JStr ''api'')
       (JNum 7) (init_world 0)
     = (Inl not_found,
        after_request (get_request ''/web/_apis/git/repositories/api/pullrequests/7?api-version=7.1''))
   \<and> getTeamMembers pat_cfg (answering (Inl server_error)) ''contoso'' (JStr ''web'') (JStr ''core'')
       (init_world 0)
     = (Inl server_error,
        after_request (get_request ''/_apis/projects/web/teams/core/members?api-version=7.1''))
   \<and> CallTool_handler pat_cfg (answering (Inl not_found)) (\<lambda>n a. throw not_found) example_stringify
       ''contoso'' ''list_team_members'' example_args (init_world 0)
     = (\<lparr> content_text = ''[]'', isError = False \<rparr>,
        after_request (get_request ''/_apis/projects/web/teams/core/members?api-version=7.1''))
   \<and> CallTool_handler pat_cfg (answering (Inl not_found)) (\<lambda>n a. throw not_found) example_stringify
       ''contoso'' ''get_pull_request'' example_args (init_world 0)
     = (\<lparr> content_text = ''Error: Request failed with status code 404'', isError = True \<rparr>,
        after_request (get_request ''/web/_apis/git/repositories/api/pullrequests/7?api-version=7.1''))"
proof -
  let ?tm = "''/_apis/projects/web/teams/core/members?api-version=7.1''"
  let ?pr = "''/web/_apis/git/repositories/api/pullrequests/7?api-version=7.1''"
  have r1: "client_request (answering a) ''contoso'' ''GET''
              (teamMembers_url (JStr ''web'') (JStr ''core'')) JUndefined pat_world
            = (a, after_request (get_request ?tm))" for a
    by (simp only: example_paths pat_client_request)
  have r2: "client_request (answering a) ''contoso'' ''GET''
              (pullRequest_url (JStr ''web'') (JStr ''api'') (JNum 7)) JUndefined pat_world
            = (a, after_request (get_request ?pr))" for a
    by (simp only: example_paths pat_client_request)
  note nf = not_found_normalization [OF pat_getClient r1 [of "Inl not_found"]
      r2 [of "Inl not_found"] example_args_props(1-4),
      where catalog = "\<lambda>n a. throw not_found" and stringify = example_stringify]
  note se = not_found_normalization [OF pat_getClient r1 [of "Inl server_error"]
      r2 [of "Inl server_error"] example_args_props(1-4),
      where catalog = "\<lambda>n a. throw not_found" and stringify = example_stringify]
  show ?thesis
    using nf se
    by (simp add: not_found_def server_error_def example_stringify_def)
qed

text \<open>
  Claim C5 (empty-id short circuit). Once the client holds its authorization, let the first
  stage, the WIQL request, be answered with data whose \<open>workItems\<close> is the empty array (or
  is absent, \<open>null\<close> or otherwise falsy). Then \<open>queryWorkItems\<close> returns the empty array in
  the world the first stage left: the request log has grown by that one POST and by nothing
  else, so the batch request of the second stage is not sent; the call handler of index.ts
  returns the text of the empty array, not an error. And \<open>getWorkItems\<close> on an empty array
  of ids returns the empty array without touching the world at all.
\<close>

theorem empty_id_short_circuit:
  assumes "getClient cfg env w = (Inr (), w1)"
    and "client_request env org ''POST'' (wiql_url project) (JObj [(''query'', wiql)]) w1
           = (Inr data, w2)"
    and "get_prop data ''workItems'' = Inr workItemRefs"
    and "workItemRefs = JArr [] \<or> \<not> truthy workItemRefs"
    and "opt_prop args ''wiql'' = wiql" and "opt_prop args ''project'' = project"
  shows "queryWorkItems cfg env org wiql project w = (Inr (JArr []), w2)
       \<and> requests w2 = requests w @
            [\<lparr> req_method = ''POST'', req_url = ''https://dev.azure.com/'' @ org @ wiql_url project,
               req_authorization = (case axiosInstance w1 of None \<Rightarrow> [] | Some h \<Rightarrow> h),
               req_body = JObj [(''query'', wiql)] \<rparr>]
       \<and> CallTool_handler cfg env catalog stringify org ''query_work_items'' args w
           = (\<lparr> content_text = stringify (JArr []), isError = False \<rparr>, w2)
       \<and> getWorkItems cfg env org (JArr []) project w = (Inr (JArr []), w)"
proof -
  have q: "queryWorkItems cfg env org wiql project w = (Inr (JArr []), w2)"
    by (rule queryWorkItems_empty [OF assms(1-4)])
  have "requests w1 = requests w"
    using getClient_requests [of cfg env w] assms(1) by simp
  then have r: "requests w2 = requests w @
            [\<lparr> req_method = ''POST'', req_url = ''https://dev.azure.com/'' @ org @ wiql_url project,
               req_authorization = (case axiosInstance w1 of None \<Rightarrow> [] | Some h \<Rightarrow> h),
               req_body = JObj [(''query'', wiql)] \<rparr>]"
    using client_request_requests [OF assms(2)] by simp
  have d: "CallTool_handler cfg env catalog stringify org ''query_work_items'' args w
           = (\<lparr> content_text = stringify (JArr []), isError = False \<rparr>, w2)"
    by (simp add: CallTool_handler_def CallTool_switch_def assms(5,6) and_then_def q text_result_def)
  from q r d getWorkItems_empty show ?thesis by simp
qed

lemma pat_wiql_request:
  "client_request (answering a) ''contoso'' ''POST'' ''/web/_apis/wit/wiql?api-version=7.1''
     (JObj [(''query'', JStr ''SELECT [System.Id] FROM WorkItems'')]) pat_world
     = (a, after_request wiql_request)"
  by (simp add: client_request_def answering_def pat_world_def after_request_def wiql_request_def)

theorem empty_id_short_circuit_witness:
  "queryWorkItems pat_cfg (answering (Inr (JObj [(''workItems'', JArr [])]))) ''contoso''
       (JStr ''SELECT [System.Id] FROM WorkItems'') (JStr ''web'') (init_world 0)
     = (Inr (JArr []), after_request wiql_request)
   \<and> requests (after_request wiql_request) = [wiql_request]
   \<and> CallTool_handler pat_cfg (answering (Inr (JObj [(''workItems'', JArr [])])))
       (\<lambda>n a. throw not_found) example_stringify ''contoso'' ''query_work_items'' example_args
       (init_world 0)
     = (\<lparr> content_text = ''[]'', isError = False \<rparr>, after_request wiql_request)"
proof -
  have r: "client_request (answering (Inr (JObj [(''workItems'', JArr [])]))) ''contoso'' ''POST''
             (wiql_url (JStr ''web'')) (JObj [(''query'', JStr ''SELECT [System.Id] FROM WorkItems'')])
             pat_world
           = (Inr (JObj [(''workItems'', JArr [])]), after_request wiql_request)"
    by (simp only: example_paths pat_wiql_request)
  have g: "get_prop (JObj [(''workItems'', JArr [])]) ''workItems'' = Inr (JArr [])" by simp
  have z: "JArr [] = JArr [] \<or> \<not> truthy (JArr [])" by simp
  note t = empty_id_short_circuit [OF pat_getClient r g z example_args_props(5,1),
      where catalog = "\<lambda>n a. throw not_found" and stringify = example_stringify]
  show ?thesis
    using t by (simp add: example_stringify_def after_request_def)
qed

text \<open>
  Claim C9 (a single-entity lookup that does not fail on 404). Once the client holds its
  authorization, let the resource server reject the alert-details request with status 404.
  Then \<open>getAdvancedSecurityAlertDetails\<close> raises nothing and returns \<open>null\<close>; so does
  \<open>executeToolInternal\<close> for the tool \<open>get_advanced_security_alert_details\<close>; and the route
  handler of functions/mcp.ts answers with status 200, \<open>success: true\<close> and \<open>result: null\<close>.
\<close>

theorem alert_details_not_found:
  assumes "getClient cfg env w = (Inr (), w1)"
    and "client_request env org ''GET'' (alert_url project repositoryId alertId) JUndefined w1
           = (Inl e, w2)"
    and "response_status e = Some 404"
    and "get_prop args ''project'' = Inr project"
    and "get_prop args ''repositoryId'' = Inr repositoryId"
    and "get_prop args ''alertId'' = Inr alertId"
    and "azureClient w = Some org"
  shows "getAdvancedSecurityAlertDetails cfg env org project repositoryId alertId w = (Inr JNull, w2)
       \<and> executeToolInternal cfg env catalog org ''get_advanced_security_alert_details'' args w
           = (Inr JNull, w2)
       \<and> executeTool_handler cfg env catalog ''get_advanced_security_alert_details'' (Inr args) w
           = (\<lparr> status = 200, jsonBody = JObj [(''success'', JBool True), (''result'', JNull)] \<rparr>, w2)"
proof -
  have a: "getAdvancedSecurityAlertDetails cfg env org project repositoryId alertId w = (Inr JNull, w2)"
    using getAdvancedSecurityAlertDetails_error [OF assms(1,2)] assms(3) by simp
  have x: "executeToolInternal cfg env catalog org ''get_advanced_security_alert_details'' args w
           = (Inr JNull, w2)"
    by (simp add: executeToolInternal_def and_then_def assms(4-6) a)
  have h: "executeTool_handler cfg env catalog ''get_advanced_security_alert_details'' (Inr args) w
           = (\<lparr> status = 200, jsonBody = JObj [(''success'', JBool True), (''result'', JNull)] \<rparr>, w2)"
    by (simp add: executeTool_handler_def and_then_def mcp_getClient_def assms(7) x)
  from a x h show ?thesis by simp
qed

lemma mcp_world_getClient:
  "getClient pat_cfg env mcp_world = (Inr (), pat_world\<lparr> azureClient := Some ''contoso'' \<rparr>)"
proof -
  have pat: "PAT_value pat_cfg = ''abc''" by (simp add: PAT_value_def pat_cfg_def)
  show ?thesis
    by (simp add: getClient_def ensureInitialized_def and_then_def init_world_def pat_world_def
        pat_cfg_mode getAuthHeader_def pat b64_digit_def b64_alphabet_def mcp_world_def)
qed

lemma mcp_client_request:
  "client_request (answering a) ''contoso'' ''GET'' path JUndefined
     (pat_world\<lparr> azureClient := Some ''contoso'' \<rparr>)
     = (a, mcp_after_request (get_request path))"
  by (simp add: client_request_def answering_def pat_world_def mcp_after_request_def get_request_def)

theorem alert_details_not_found_witness:
  "getAdvancedSecurityAlertDetails pat_cfg (answering (Inl not_found)) ''contoso''
       (JStr ''web'') (JStr ''api'') (JStr ''12'') mcp_world
     = (Inr JNull,
        mcp_after_request (get_request ''/web/_apis/alert/repositories/api/alerts/12?api-version=7.1-preview.1''))
   \<and> executeTool_handler pat_cfg (answering (Inl not_found)) (\<lambda>n a. throw not_found)
       ''get_advanced_security_alert_details'' (Inr example_args) mcp_world
     = (\<lparr> status = 200, jsonBody = JObj [(''success'', JBool True), (''result'', JNull)] \<rparr>,
        mcp_after_request (get_request ''/web/_apis/alert/repositories/api/alerts/12?api-version=7.1-preview.1''))"
proof -
  have r: "client_request (answering (Inl not_found)) ''contoso'' ''GET''
             (alert_url (JStr ''web'') (JStr ''api'') (JStr ''12'')) JUndefined
             (pat_world\<lparr> azureClient := Some ''contoso'' \<rparr>)
           = (Inl not_found, mcp_after_request
                (get_request ''/web/_apis/alert/repositories/api/alerts/12?api-version=7.1-preview.1''))"
    by (simp only: example_paths mcp_client_request)
  have s: "response_status not_found = Some 404" by (simp add: not_found_def)
  have c: "azureClient mcp_world = Some ''contoso''" by (simp add: mcp_world_def)
  note t = alert_details_not_found [OF mcp_world_getClient r s example_args_props(7-9) c,
      where catalog = "\<lambda>n a. throw not_found"]
  show ?thesis using t by simp
qed

section \<open>Static-token mode\<close>

lemma getAccessToken_pat:
  "USE_PAT cfg \<Longrightarrow> getAccessToken cfg now s = (Resolved (PAT_value cfg), s)"
  by (simp add: getAccessToken_def)

lemma finish_idle: "tokenPromise s = None \<Longrightarrow> finishTokenRequest now r s = s"
  by (simp add: finishTokenRequest_def)

lemma run_pat_exchanges: "USE_PAT cfg \<Longrightarrow> exchanges (run cfg es s) = exchanges s"
  by (induction cfg es s rule: run.induct) (simp_all add: getAccessToken_pat finish_exchanges)

lemma run_pat_idle: "USE_PAT cfg \<Longrightarrow> tokenPromise s = None \<Longrightarrow> run cfg es s = s"
  by (induction cfg es s rule: run.induct) (simp_all add: getAccessToken_pat finish_idle)

lemma awaitAccessToken_pat:
  "USE_PAT cfg \<Longrightarrow> awaitAccessToken cfg env w = (Inr (PAT_value cfg), w)"
  by (simp add: awaitAccessToken_def getAccessToken_pat)

lemma getAuthHeader_pat:
  "USE_PAT cfg \<Longrightarrow> getAuthHeader cfg = Inr (''Basic '' @ base64 ('':'' @ PAT_value cfg))"
  by (simp add: getAuthHeader_def)

lemma ensureInitialized_pat:
  "USE_PAT cfg \<Longrightarrow>
   ensureInitialized cfg env w =
     (Inr (), if axiosInstance w \<noteq> None \<and> initialized w then w
              else w\<lparr> axiosInstance := Some (''Basic '' @ base64 ('':'' @ PAT_value cfg)),
                      initialized := True \<rparr>)"
  by (simp add: ensureInitialized_def and_then_def getAuthHeader_pat)

lemma getClient_pat:
  "USE_PAT cfg \<Longrightarrow>
   getClient cfg env w =
     (Inr (), if axiosInstance w \<noteq> None \<and> initialized w then w
              else w\<lparr> axiosInstance := Some (''Basic '' @ base64 ('':'' @ PAT_value cfg)),
                      initialized := True \<rparr>)"
  by (simp add: getClient_def and_then_def ensureInitialized_pat)

lemma getClient_pat_cred: "USE_PAT cfg \<Longrightarrow> cred (snd (getClient cfg env w)) = cred w"
  by (simp add: getClient_pat)

lemma client_request_cred: "cred (snd (client_request env org m path body w)) = cred w"
  by (simp add: client_request_def Let_def split: prod.splits)

lemma axios_get_cred: "cred (snd (axios_get env url h w)) = cred w"
  by (simp add: axios_get_def Let_def split: prod.splits)

lemma and_then_cred:
  assumes "\<And>w. cred (snd (m w)) = cred w" and "\<And>a w. cred (snd (f a w)) = cred w"
  shows "cred (snd (and_then m f w)) = cred w"
proof (cases "m w")
  case (Pair r w1)
  with assms(1) [of w] have "cred w1 = cred w" by simp
  with Pair assms(2) show ?thesis by (cases r) (simp_all add: and_then_def)
qed

lemma try_catch_cred:
  assumes "\<And>w. cred (snd (m w)) = cred w" and "\<And>e w. cred (snd (h e w)) = cred w"
  shows "cred (snd (try_catch m h w)) = cred w"
proof (cases "m w")
  case (Pair r w1)
  with assms(1) [of w] have "cred w1 = cred w" by simp
  with Pair assms(2) show ?thesis by (cases r) (simp_all add: try_catch_def)
qed

lemma pure_cred [simp]:
  "cred (snd (return a w)) = cred w" "cred (snd (throw e w)) = cred w"
  "cred (snd (liftE r w)) = cred w"
  by (simp_all add: return_def throw_def liftE_def)

lemma getWorkItems_pat_cred:
  "USE_PAT cfg \<Longrightarrow> cred (snd (getWorkItems cfg env org ids project w)) = cred w"
  unfolding getWorkItems_def
  by (intro and_then_cred) (auto simp: getClient_pat_cred client_request_cred
      intro!: and_then_cred split: json.splits)

lemma queryWorkItems_pat_cred:
  "USE_PAT cfg \<Longrightarrow> cred (snd (queryWorkItems cfg env org wiql project w)) = cred w"
  unfolding queryWorkItems_def
  by (intro and_then_cred) (auto simp: getClient_pat_cred client_request_cred getWorkItems_pat_cred
      intro!: and_then_cred split: json.splits)

lemma getTeamMembers_pat_cred:
  "USE_PAT cfg \<Longrightarrow> cred (snd (getTeamMembers cfg env org project team w)) = cred w"
  unfolding getTeamMembers_def
  by (intro and_then_cred try_catch_cred) (auto simp: getClient_pat_cred client_request_cred
      intro!: and_then_cred)

lemma getPullRequestById_pat_cred:
  "USE_PAT cfg \<Longrightarrow> cred (snd (getPullRequestById cfg env org p r i w)) = cred w"
  unfolding getPullRequestById_def
  by (intro and_then_cred) (auto simp: getClient_pat_cred client_request_cred intro!: and_then_cred)

lemma getAdvancedSecurityAlertDetails_pat_cred:
  "USE_PAT cfg \<Longrightarrow> cred (snd (getAdvancedSecurityAlertDetails cfg env org p r i w)) = cred w"
  unfolding getAdvancedSecurityAlertDetails_def
  by (intro and_then_cred try_catch_cred) (auto simp: getClient_pat_cred client_request_cred)

lemma searchIdentities_pat:
  "USE_PAT cfg \<Longrightarrow>
   searchIdentities cfg env org f w
     = axios_get env (identities_url org f) (''Bearer '' @ PAT_value cfg) w"
  by (simp add: searchIdentities_def and_then_def awaitAccessToken_pat)

lemma searchIdentities_pat_cred:
  "USE_PAT cfg \<Longrightarrow> cred (snd (searchIdentities cfg env org f w)) = cred w"
  by (simp add: searchIdentities_pat axios_get_cred)

lemma searchIdentities_pat_consistent:
  "USE_PAT cfg \<Longrightarrow> pat_consistent cfg w \<Longrightarrow>
   pat_consistent cfg (snd (searchIdentities cfg env org f w))"
  by (auto simp: searchIdentities_pat axios_get_def Let_def pat_consistent_def
      split: prod.splits option.splits)

lemma only_basic_refl: "pat_consistent cfg w \<Longrightarrow> only_basic cfg w w"
  by (simp add: only_basic_def)

lemma only_basic_trans:
  assumes "only_basic cfg w w1" and "only_basic cfg w1 w2"
  shows "only_basic cfg w w2"
proof -
  from assms(1) obtain rs1 where 1: "requests w1 = requests w @ rs1"
    and a1: "list_all (\<lambda>r. getAuthHeader cfg = Inr (req_authorization r)) rs1"
    unfolding only_basic_def by (metis append_take_drop_id)
  from assms(2) obtain rs2 where 2: "requests w2 = requests w1 @ rs2"
    and a2: "list_all (\<lambda>r. getAuthHeader cfg = Inr (req_authorization r)) rs2"
    unfolding only_basic_def by (metis append_take_drop_id)
  from assms(2) have "pat_consistent cfg w2" by (simp add: only_basic_def)
  with 1 2 a1 a2 show ?thesis by (simp add: only_basic_def)
qed

lemma getClient_only_basic:
  assumes "USE_PAT cfg" and "pat_consistent cfg w"
  shows "only_basic cfg w (snd (getClient cfg env w))"
    and "axiosInstance (snd (getClient cfg env w)) = Some (''Basic '' @ base64 ('':'' @ PAT_value cfg))"
  using assms
  by (auto simp: getClient_pat only_basic_def pat_consistent_def getAuthHeader_pat split: option.splits)

lemma client_request_only_basic:
  assumes "USE_PAT cfg" and "pat_consistent cfg w"
    and "axiosInstance w = Some (''Basic '' @ base64 ('':'' @ PAT_value cfg))"
  shows "only_basic cfg w (snd (client_request env org m path body w))"
    and "axiosInstance (snd (client_request env org m path body w)) = axiosInstance w"
  using assms
  by (auto simp: client_request_def Let_def only_basic_def pat_consistent_def getAuthHeader_pat
      split: prod.splits)

lemma getTeamMembers_world:
  "snd (getTeamMembers cfg env org project team w)
     = (case getClient cfg env w of
          (Inl e, w1) \<Rightarrow> w1
        | (Inr u, w1) \<Rightarrow> snd (client_request env org ''GET'' (teamMembers_url project team) JUndefined w1))"
  by (auto simp: getTeamMembers_def and_then_def try_catch_def return_def throw_def liftE_def
      split: prod.splits sum.splits)

lemma getClient_pat_ready:
  assumes "USE_PAT cfg" and "pat_consistent cfg w"
  obtains w1 where "getClient cfg env w = (Inr (), w1)" and "only_basic cfg w w1"
    and "pat_consistent cfg w1"
    and "axiosInstance w1 = Some (''Basic '' @ base64 ('':'' @ PAT_value cfg))"
proof -
  obtain w1 where g: "getClient cfg env w = (Inr (), w1)"
    using assms(1) by (simp add: getClient_pat)
  have "only_basic cfg w w1" using getClient_only_basic(1) [OF assms, of env] g by simp
  moreover from this have "pat_consistent cfg w1" by (simp add: only_basic_def)
  moreover have "axiosInstance w1 = Some (''Basic '' @ base64 ('':'' @ PAT_value cfg))"
    using getClient_only_basic(2) [OF assms, of env] g by simp
  ultimately show ?thesis using that g by blast
qed

lemma getTeamMembers_only_basic:
  assumes "USE_PAT cfg" and "pat_consistent cfg w"
  shows "only_basic cfg w (snd (getTeamMembers cfg env org project team w))"
proof -
  obtain w1 where g: "getClient cfg env w = (Inr (), w1)" and 1: "only_basic cfg w w1"
    and c1: "pat_consistent cfg w1"
    and h1: "axiosInstance w1 = Some (''Basic '' @ base64 ('':'' @ PAT_value cfg))"
    using getClient_pat_ready [OF assms] by blast
  have 2: "only_basic cfg w1 (snd (client_request env org ''GET'' (teamMembers_url project team) JUndefined w1))"
    by (rule client_request_only_basic [OF assms(1) c1 h1])
  have "snd (getTeamMembers cfg env org project team w)
          = snd (client_request env org ''GET'' (teamMembers_url project team) JUndefined w1)"
    by (simp add: getTeamMembers_world g)
  with only_basic_trans [OF 1 2] show ?thesis by simp
qed


lemma getPullRequestById_world:
  "snd (getPullRequestById cfg env org project repositoryId pullRequestId w)
     = (case getClient cfg env w of
          (Inl e, w1) \<Rightarrow> w1
        | (Inr u, w1) \<Rightarrow>
            snd (client_request env org ''GET'' (pullRequest_url project repositoryId pullRequestId)
                   JUndefined w1))"
  by (auto simp: getPullRequestById_def and_then_def return_def liftE_def
      split: prod.splits sum.splits)

lemma getAdvancedSecurityAlertDetails_world:
  "snd (getAdvancedSecurityAlertDetails cfg env org project repositoryId alertId w)
     = (case getClient cfg env w of
          (Inl e, w1) \<Rightarrow> w1
        | (Inr u, w1) \<Rightarrow>
            snd (client_request env org ''GET'' (alert_url project repositoryId alertId)
                   JUndefined w1))"
  by (auto simp: getAdvancedSecurityAlertDetails_def and_then_def try_catch_def return_def throw_def
      split: prod.splits sum.splits)

lemma getPullRequestById_only_basic:
  assumes "USE_PAT cfg" and "pat_consistent cfg w"
  shows "only_basic cfg w (snd (getPullRequestById cfg env org project repositoryId pullRequestId w))"
proof -
  obtain w1 where g: "getClient cfg env w = (Inr (), w1)" and 1: "only_basic cfg w w1"
    and c1: "pat_consistent cfg w1"
    and h1: "axiosInstance w1 = Some (''Basic '' @ base64 ('':'' @ PAT_value cfg))"
    using getClient_pat_ready [OF assms] by blast
  have 2: "only_basic cfg w1 (snd (client_request env org ''GET''
             (pullRequest_url project repositoryId pullRequestId) JUndefined w1))"
    by (rule client_request_only_basic [OF assms(1) c1 h1])
  from only_basic_trans [OF 1 2] show ?thesis by (simp add: getPullRequestById_world g)
qed

lemma getAdvancedSecurityAlertDetails_only_basic:
  assumes "USE_PAT cfg" and "pat_consistent cfg w"
  shows "only_basic cfg w
           (snd (getAdvancedSecurityAlertDetails cfg env org project repositoryId alertId w))"
proof -
  obtain w1 where g: "getClient cfg env w = (Inr (), w1)" and 1: "only_basic cfg w w1"
    and c1: "pat_consistent cfg w1"
    and h1: "axiosInstance w1 = Some (''Basic '' @ base64 ('':'' @ PAT_value cfg))"
    using getClient_pat_ready [OF assms] by blast
  have 2: "only_basic cfg w1 (snd (client_request env org ''GET''
             (alert_url project repositoryId alertId) JUndefined w1))"
    by (rule client_request_only_basic [OF assms(1) c1 h1])
  from only_basic_trans [OF 1 2] show ?thesis by (simp add: getAdvancedSecurityAlertDetails_world g)
qed

lemma getWorkItems_world:
  "snd (getWorkItems cfg env org ids project w) = w
   \<or> (\<exists>w1 u. getClient cfg env w = (u, w1)
         \<and> (snd (getWorkItems cfg env org ids project w) = w1
             \<or> snd (getWorkItems cfg env org ids project w)
                  = snd (client_request env org ''GET'' (workItems_url project (js_toString ids))
                           JUndefined w1)))"
  by (cases "getClient cfg env w")
     (auto simp: getWorkItems_def and_then_def return_def throw_def liftE_def
      split: prod.splits sum.splits json.splits)

lemma getWorkItems_only_basic:
  assumes "USE_PAT cfg" and "pat_consistent cfg w"
  shows "only_basic cfg w (snd (getWorkItems cfg env org ids project w))"
proof -
  obtain w1 where g: "getClient cfg env w = (Inr (), w1)" and 1: "only_basic cfg w w1"
    and c1: "pat_consistent cfg w1"
    and h1: "axiosInstance w1 = Some (''Basic '' @ base64 ('':'' @ PAT_value cfg))"
    using getClient_pat_ready [OF assms] by blast
  have 2: "only_basic cfg w1 (snd (client_request env org ''GET'' path JUndefined w1))" for path
    by (rule client_request_only_basic [OF assms(1) c1 h1])
  from getWorkItems_world [of cfg env org ids project w]
  show ?thesis
    using only_basic_refl [OF assms(2)] 1 only_basic_trans [OF 1 2] g by auto
qed

lemma queryWorkItems_world:
  "(\<exists>w1 u. getClient cfg env w = (u, w1)
      \<and> (snd (queryWorkItems cfg env org wiql project w) = w1
          \<or> (\<exists>w2 d. client_request env org ''POST'' (wiql_url project) (JObj [(''query'', wiql)]) w1
                       = (d, w2)
                \<and> (snd (queryWorkItems cfg env org wiql project w) = w2
                    \<or> (\<exists>ids. snd (queryWorkItems cfg env org wiql project w)
                               = snd (getWorkItems cfg env org ids project w2))))))"
  by (cases "getClient cfg env w")
     (auto simp: queryWorkItems_def and_then_def return_def throw_def liftE_def
      split: prod.splits sum.splits json.splits)

lemma queryWorkItems_only_basic:
  assumes "USE_PAT cfg" and "pat_consistent cfg w"
  shows "only_basic cfg w (snd (queryWorkItems cfg env org wiql project w))"
proof -
  obtain w1 where g: "getClient cfg env w = (Inr (), w1)" and 1: "only_basic cfg w w1"
    and c1: "pat_consistent cfg w1"
    and h1: "axiosInstance w1 = Some (''Basic '' @ base64 ('':'' @ PAT_value cfg))"
    using getClient_pat_ready [OF assms] by blast
  obtain d w2 where r: "client_request env org ''POST'' (wiql_url project) (JObj [(''query'', wiql)]) w1
      = (d, w2)" by (cases "client_request env org ''POST'' (wiql_url project) (JObj [(''query'', wiql)]) w1")
  have 2: "only_basic cfg w1 w2"
    using client_request_only_basic(1) [OF assms(1) c1 h1, of env org "''POST''" "wiql_url project"
        "JObj [(''query'', wiql)]"] r by simp
  then have c2: "pat_consistent cfg w2" by (simp add: only_basic_def)
  have 12: "only_basic cfg w w2" by (rule only_basic_trans [OF 1 2])
  have 3: "only_basic cfg w (snd (getWorkItems cfg env org ids project w2))" for ids
    by (rule only_basic_trans [OF 12 getWorkItems_only_basic [OF assms(1) c2]])
  from queryWorkItems_world [of cfg env w org wiql project]
  show ?thesis using 1 12 3 g r by auto
qed

lemma searchIdentities_pat_requests:
  assumes "USE_PAT cfg"
  shows "requests (snd (searchIdentities cfg env org f w))
           = requests w @ [\<lparr> req_method = ''GET'', req_url = identities_url org f,
                             req_authorization = ''Bearer '' @ PAT_value cfg, req_body = JUndefined \<rparr>]"
  by (simp add: searchIdentities_pat [OF assms] axios_get_def Let_def split: prod.splits)

lemma basic_is_not_bearer: "''Basic '' @ x \<noteq> ''Bearer '' @ y"
  by simp

text \<open>
  Claim C10 (two encodings of one credential). In static-token mode, from a world that agrees
  with it, every operation that goes through the client's HTTP instance (work items by ids,
  the WIQL query, team members, pull request by id, alert details) adds to the request log
  only requests whose \<open>Authorization\<close> header is the one \<open>getAuthHeader\<close> computes, which is
  \<open>Basic\<close> and the base64 of a colon and the secret; for team members the one request is
  spelled out. \<open>searchIdentities\<close> sends one request whose header is \<open>Bearer\<close> and the secret
  as it is. The two headers differ.
\<close>

theorem static_token_two_encodings:
  assumes "USE_PAT cfg" and "pat_consistent cfg w"
  shows "getAuthHeader cfg = Inr (''Basic '' @ base64 ('':'' @ PAT_value cfg))
       \<and> only_basic cfg w (snd (getWorkItems cfg env org ids project w))
       \<and> only_basic cfg w (snd (queryWorkItems cfg env org wiql project w))
       \<and> only_basic cfg w (snd (getTeamMembers cfg env org project team w))
       \<and> only_basic cfg w (snd (getPullRequestById cfg env org project repositoryId pullRequestId w))
       \<and> only_basic cfg w (snd (getAdvancedSecurityAlertDetails cfg env org project repositoryId alertId w))
       \<and> requests (snd (getTeamMembers cfg env org project team w))
           = requests w @ [\<lparr> req_method = ''GET'',
                             req_url = ''https://dev.azure.com/'' @ org @ teamMembers_url project team,
                             req_authorization = ''Basic '' @ base64 ('':'' @ PAT_value cfg),
                             req_body = JUndefined \<rparr>]
       \<and> requests (snd (searchIdentities cfg env org searchFilter w))
           = requests w @ [\<lparr> req_method = ''GET'', req_url = identities_url org searchFilter,
                             req_authorization = ''Bearer '' @ PAT_value cfg,
                             req_body = JUndefined \<rparr>]
       \<and> ''Basic '' @ base64 ('':'' @ PAT_value cfg) \<noteq> ''Bearer '' @ PAT_value cfg"
proof -
  obtain w1 where g: "getClient cfg env w = (Inr (), w1)" and 1: "only_basic cfg w w1"
    and h1: "axiosInstance w1 = Some (''Basic '' @ base64 ('':'' @ PAT_value cfg))"
    using getClient_pat_ready [OF assms] by blast
  have "requests w1 = requests w" using getClient_requests [of cfg env w] g by simp
  then have tm: "requests (snd (getTeamMembers cfg env org project team w))
           = requests w @ [\<lparr> req_method = ''GET'',
                             req_url = ''https://dev.azure.com/'' @ org @ teamMembers_url project team,
                             req_authorization = ''Basic '' @ base64 ('':'' @ PAT_value cfg),
                             req_body = JUndefined \<rparr>]"
    by (simp add: getTeamMembers_world g client_request_def Let_def h1 split: prod.splits)
  show ?thesis
    by (intro conjI getAuthHeader_pat getWorkItems_only_basic queryWorkItems_only_basic
        getTeamMembers_only_basic getPullRequestById_only_basic
        getAdvancedSecurityAlertDetails_only_basic searchIdentities_pat_requests
        basic_is_not_bearer tm assms)
qed

lemma init_world_consistent: "pat_consistent cfg (init_world t)"
  by (simp add: pat_consistent_def init_world_def)

lemma example_identities_url:
  "identities_url ''contoso'' (JStr ''ann lee'')
     = ''https://vssps.dev.azure.com/contoso/_apis/identities?api-version=7.1&searchFilter=General&filterValue=ann+lee''"
  by code_simp

lemma pat_cfg_value: "PAT_value pat_cfg = ''abc''"
  by (simp add: PAT_value_def pat_cfg_def)

theorem static_token_two_encodings_witness:
  "USE_PAT pat_cfg \<and> pat_consistent pat_cfg (init_world 0)
   \<and> getAuthHeader pat_cfg = Inr ''Basic OmFiYw==''
   \<and> requests (snd (getTeamMembers pat_cfg (answering (Inl not_found)) ''contoso''
                      (JStr ''web'') (JStr ''core'') (init_world 0)))
       = [get_request ''/_apis/projects/web/teams/core/members?api-version=7.1'']
   \<and> requests (snd (searchIdentities pat_cfg (answering (Inl not_found)) ''contoso''
                      (JStr ''ann lee'') (init_world 0)))
       = [\<lparr> req_method = ''GET'',
            req_url = ''https://vssps.dev.azure.com/contoso/_apis/identities?api-version=7.1&searchFilter=General&filterValue=ann+lee'',
            req_authorization = ''Bearer abc'', req_body = JUndefined \<rparr>]"
proof -
  note t = static_token_two_encodings [OF pat_cfg_mode init_world_consistent [of pat_cfg 0],
      where env = "answering (Inl not_found)" and org = "''contoso''" and project = "JStr ''web''"
        and team = "JStr ''core''" and searchFilter = "JStr ''ann lee''"]
  have e: "requests (init_world 0) = []" by (simp add: init_world_def)
  show ?thesis
    using t pat_cfg_mode init_world_consistent [of pat_cfg 0]
    by (simp add: pat_cfg_value b64_digit_def b64_alphabet_def example_identities_url
        example_paths e get_request_def)
qed

text \<open>
  Claim C6 (mode exclusivity). With a static secret configured: \<open>getAccessToken\<close> returns the
  secret at once and leaves the shared state as it is, at any time and in any state; over any
  sequence of calls and answers, at any times, the count of exchanges does not move, and from
  the initial state the state never changes at all; \<open>getAuthHeader\<close> returns the header
  computed from the secret; awaiting the token, building the HTTP instance and \<open>getClient\<close>
  succeed without touching the shared state; and so does every operation modelled, which
  reaches the credential provider through these only.
\<close>

theorem mode_exclusivity:
  assumes "USE_PAT cfg"
  shows "getAccessToken cfg now s = (Resolved (PAT_value cfg), s)
       \<and> exchanges (run cfg es s) = exchanges s
       \<and> run cfg es init_cred = init_cred
       \<and> getAuthHeader cfg = Inr (''Basic '' @ base64 ('':'' @ PAT_value cfg))
       \<and> awaitAccessToken cfg env w = (Inr (PAT_value cfg), w)
       \<and> fst (ensureInitialized cfg env w) = Inr ()
       \<and> cred (snd (ensureInitialized cfg env w)) = cred w
       \<and> fst (getClient cfg env w) = Inr ()
       \<and> cred (snd (getClient cfg env w)) = cred w
       \<and> cred (snd (getWorkItems cfg env org ids project w)) = cred w
       \<and> cred (snd (queryWorkItems cfg env org wiql project w)) = cred w
       \<and> cred (snd (getTeamMembers cfg env org project team w)) = cred w
       \<and> cred (snd (getPullRequestById cfg env org project repositoryId pullRequestId w)) = cred w
       \<and> cred (snd (getAdvancedSecurityAlertDetails cfg env org project repositoryId alertId w))
           = cred w
       \<and> cred (snd (searchIdentities cfg env org searchFilter w)) = cred w"
proof -
  have i: "tokenPromise init_cred = None" by (simp add: init_cred_def)
  have e1: "fst (ensureInitialized cfg env w) = Inr ()"
    and e2: "cred (snd (ensureInitialized cfg env w)) = cred w"
    and g1: "fst (getClient cfg env w) = Inr ()"
    using assms by (simp_all add: ensureInitialized_pat getClient_pat)
  show ?thesis
    by (intro conjI getAccessToken_pat run_pat_exchanges run_pat_idle getAuthHeader_pat
        awaitAccessToken_pat e1 e2 g1 getClient_pat_cred getWorkItems_pat_cred
        queryWorkItems_pat_cred getTeamMembers_pat_cred getPullRequestById_pat_cred
        getAdvancedSecurityAlertDetails_pat_cred searchIdentities_pat_cred assms i)
qed

theorem mode_exclusivity_witness:
  "USE_PAT pat_cfg
   \<and> getAccessToken pat_cfg 1000 init_cred = (Resolved ''abc'', init_cred)
   \<and> exchanges (run pat_cfg [Call 1000, Call 1000, Answer 2000 NullResponse, Call 9000000000]
                   (cached_until 0)) = 0
   \<and> run pat_cfg [Call 1000, Call 1000, Answer 2000 NullResponse, Call 9000000000] init_cred
       = init_cred
   \<and> cred (snd (getClient pat_cfg (answering (Inl not_found)) (init_world 0))) = init_cred
   \<and> cred (snd (searchIdentities pat_cfg (answering (Inl not_found)) ''contoso'' (JStr ''ann lee'')
                  (init_world 0))) = init_cred"
proof -
  note t = mode_exclusivity [OF pat_cfg_mode, where now = 1000 and s = init_cred
      and es = "[Call 1000, Call 1000, Answer 2000 NullResponse, Call 9000000000]"
      and env = "answering (Inl not_found)" and w = "init_world 0" and org = "''contoso''"
      and searchFilter = "JStr ''ann lee''"]
  note u = mode_exclusivity [OF pat_cfg_mode, where s = "cached_until 0"
      and es = "[Call 1000, Call 1000, Answer 2000 NullResponse, Call 9000000000]"]
  have c: "cred (init_world 0) = init_cred" by (simp add: init_world_def)
  have x: "exchanges (cached_until 0) = 0" by (simp add: cached_until_def init_cred_def)
  show ?thesis
    using t u pat_cfg_mode by (simp del: run.simps add: pat_cfg_value c x)
qed

section \<open>Properties of the registry\<close>

lemma index_modelled_cases:
  "''list_team_members'' \<in> set index_cases" "''query_work_items'' \<in> set index_cases"
  "''get_work_items_by_ids'' \<in> set index_cases" "''get_pull_request'' \<in> set index_cases"
  "''get_identity_ids'' \<in> set index_cases"
  by (simp_all add: index_cases_def)

lemma mcp_modelled_cases:
  "''list_team_members'' \<in> set mcp_cases" "''query_work_items'' \<in> set mcp_cases"
  "''get_work_items_by_ids'' \<in> set mcp_cases" "''get_pull_request'' \<in> set mcp_cases"
  "''get_identity_ids'' \<in> set mcp_cases"
  "''get_advanced_security_alert_details'' \<in> set mcp_cases"
  by (simp_all add: mcp_cases_def)

lemma CallTool_switch_unknown:
  assumes "toolName \<notin> set index_cases"
  shows "CallTool_switch cfg env catalog stringify org toolName args w
           = (Inr \<lparr> content_text = ''Unknown tool: '' @ toolName, isError = True \<rparr>, w)"
proof -
  have "toolName \<noteq> ''list_team_members''" "toolName \<noteq> ''query_work_items''"
    "toolName \<noteq> ''get_work_items_by_ids''" "toolName \<noteq> ''get_pull_request''"
    "toolName \<noteq> ''get_identity_ids''"
    using assms index_modelled_cases by auto
  then show ?thesis using assms by (simp add: CallTool_switch_def return_def)
qed

lemma executeToolInternal_unknown:
  assumes "toolName \<notin> set mcp_cases"
  shows "executeToolInternal cfg env catalog org toolName args w
           = (Inl (JsError (''Unknown tool: '' @ toolName) None), w)"
proof -
  have "toolName \<noteq> ''list_team_members''" "toolName \<noteq> ''query_work_items''"
    "toolName \<noteq> ''get_work_items_by_ids''" "toolName \<noteq> ''get_pull_request''"
    "toolName \<noteq> ''get_identity_ids''" "toolName \<noteq> ''get_advanced_security_alert_details''"
    using assms mcp_modelled_cases by auto
  then show ?thesis using assms by (simp add: executeToolInternal_def throw_def)
qed

lemma mcp_getClient_world:
  "requests (snd (mcp_getClient cfg w)) = requests w \<and> cred (snd (mcp_getClient cfg w)) = cred w"
  by (simp add: mcp_getClient_def split: option.splits sum.splits)

lemma executeTool_handler_unknown:
  assumes "toolName \<notin> set mcp_cases"
  shows "\<exists>msg. fst (executeTool_handler cfg env catalog toolName body w)
                 = \<lparr> status = 500,
                      jsonBody = JObj [(''success'', JBool False), (''error'', JStr msg)] \<rparr>"
    and "requests (snd (executeTool_handler cfg env catalog toolName body w)) = requests w"
    and "cred (snd (executeTool_handler cfg env catalog toolName body w)) = cred w"
    and "body = Inr args \<Longrightarrow> mcp_getClient cfg w = (Inr org, w') \<Longrightarrow>
         executeTool_handler cfg env catalog toolName body w
           = (\<lparr> status = 500,
                jsonBody = JObj [(''success'', JBool False),
                                 (''error'', JStr (''Unknown tool: '' @ toolName))] \<rparr>, w')"
  using mcp_getClient_world [of cfg w]
  by (cases body; cases "mcp_getClient cfg w"; cases "fst (mcp_getClient cfg w)";
      simp add: executeTool_handler_def and_then_def liftE_def
        executeToolInternal_unknown [OF assms])+

text \<open>
  Claim C2 (unknown tool). For a tool name that is not among the \<open>case\<close> labels: the call
  handler of index.ts returns the error result \<open>Unknown tool: \<close> and the name, in the world
  it was called in; \<open>executeToolInternal\<close> of functions/mcp.ts raises the error of that
  message, in the world it was called in, and the route handler around it catches what is
  raised: whatever the request body and the configuration, it answers with status 500 and
  \<open>success: false\<close>, nothing is thrown past it, no HTTP request is sent and the credential
  state is untouched; when the body parses and the client can be built, the message is
  \<open>Unknown tool: \<close> and the name.
\<close>

theorem unknown_tool:
  "(toolName \<notin> set index_cases \<longrightarrow>
      CallTool_handler cfg env icatalog stringify org toolName args w
        = (\<lparr> content_text = ''Unknown tool: '' @ toolName, isError = True \<rparr>, w))
   \<and> (toolName \<notin> set mcp_cases \<longrightarrow>
      executeToolInternal cfg env mcatalog org toolName args w
        = (Inl (JsError (''Unknown tool: '' @ toolName) None), w)
      \<and> (\<exists>msg. fst (executeTool_handler cfg env mcatalog toolName body w)
                  = \<lparr> status = 500,
                       jsonBody = JObj [(''success'', JBool False), (''error'', JStr msg)] \<rparr>)
      \<and> requests (snd (executeTool_handler cfg env mcatalog toolName body w)) = requests w
      \<and> cred (snd (executeTool_handler cfg env mcatalog toolName body w)) = cred w
      \<and> (mcp_getClient cfg w = (Inr org, w') \<longrightarrow>
            executeTool_handler cfg env mcatalog toolName (Inr args) w
              = (\<lparr> status = 500,
                   jsonBody = JObj [(''success'', JBool False),
                                    (''error'', JStr (''Unknown tool: '' @ toolName))] \<rparr>, w')))"
proof (intro conjI impI)
  assume "toolName \<notin> set index_cases"
  then show "CallTool_handler cfg env icatalog stringify org toolName args w
        = (\<lparr> content_text = ''Unknown tool: '' @ toolName, isError = True \<rparr>, w)"
    by (simp add: CallTool_handler_def CallTool_switch_unknown)
next
  assume u: "toolName \<notin> set mcp_cases"
  show "executeToolInternal cfg env mcatalog org toolName args w
        = (Inl (JsError (''Unknown tool: '' @ toolName) None), w)"
    by (rule executeToolInternal_unknown [OF u])
  show "\<exists>msg. fst (executeTool_handler cfg env mcatalog toolName body w)
                  = \<lparr> status = 500,
                       jsonBody = JObj [(''success'', JBool False), (''error'', JStr msg)] \<rparr>"
    by (rule executeTool_handler_unknown(1) [OF u])
  show "requests (snd (executeTool_handler cfg env mcatalog toolName body w)) = requests w"
    by (rule executeTool_handler_unknown(2) [OF u])
  show "cred (snd (executeTool_handler cfg env mcatalog toolName body w)) = cred w"
    by (rule executeTool_handler_unknown(3) [OF u])
  assume "mcp_getClient cfg w = (Inr org, w')"
  then show "executeTool_handler cfg env mcatalog toolName (Inr args) w
              = (\<lparr> status = 500,
                   jsonBody = JObj [(''success'', JBool False),
                                    (''error'', JStr (''Unknown tool: '' @ toolName))] \<rparr>, w')"
    by (rule executeTool_handler_unknown(4) [OF u refl])
qed

lemma not_a_real_tool:
  "''not_a_real_tool'' \<notin> set index_cases" "''not_a_real_tool'' \<notin> set mcp_cases"
  by (simp_all add: index_cases_def mcp_cases_def)

lemma mcp_build_example: "mcp_getClient pat_cfg (init_world 0) = (Inr ''contoso'', mcp_world)"
proof -
  have "AZURE_DEVOPS_ORG_URL pat_cfg = Some ''https://dev.azure.com/contoso''"
    by (simp add: pat_cfg_def)
  moreover have "match_organization ''https://dev.azure.com/contoso'' = Some ''contoso''"
    by code_simp
  ultimately have "new_AzureDevOpsClient pat_cfg = Inr ''contoso''"
    by (simp add: new_AzureDevOpsClient_def)
  then show ?thesis
    by (simp add: mcp_getClient_def init_world_def mcp_world_def)
qed

theorem unknown_tool_witness:
  "''not_a_real_tool'' \<notin> set index_cases \<and> ''not_a_real_tool'' \<notin> set mcp_cases
   \<and> CallTool_handler pat_cfg (answering (Inl not_found)) (\<lambda>n a. throw not_found)
       example_stringify ''contoso'' ''not_a_real_tool'' (JObj []) (init_world 0)
     = (\<lparr> content_text = ''Unknown tool: not_a_real_tool'', isError = True \<rparr>, init_world 0)
   \<and> executeToolInternal pat_cfg (answering (Inl not_found)) (\<lambda>n a. throw not_found)
       ''contoso'' ''not_a_real_tool'' (JObj []) (init_world 0)
     = (Inl (JsError ''Unknown tool: not_a_real_tool'' None), init_world 0)
   \<and> executeTool_handler pat_cfg (answering (Inl not_found)) (\<lambda>n a. throw not_found)
       ''not_a_real_tool'' (Inr (JObj [])) (init_world 0)
     = (\<lparr> status = 500,
          jsonBody = JObj [(''success'', JBool False),
                           (''error'', JStr ''Unknown tool: not_a_real_tool'')] \<rparr>, mcp_world)
   \<and> requests mcp_world = [] \<and> cred mcp_world = init_cred"
proof -
  note t = unknown_tool [where toolName = "''not_a_real_tool''" and cfg = pat_cfg
      and env = "answering (Inl not_found)" and icatalog = "\<lambda>n a. throw not_found"
      and mcatalog = "\<lambda>n a. throw not_found" and stringify = example_stringify
      and org = "''contoso''" and args = "JObj []" and w = "init_world 0" and w' = mcp_world]
  have w: "requests mcp_world = []" "cred mcp_world = init_cred"
    by (simp_all add: mcp_world_def init_world_def)
  show ?thesis
    using t not_a_real_tool mcp_build_example w by simp
qed

lemma index_round_trip: "list_all (listed ListTools_handler) index_cases"
  by code_simp

lemma mcp_listing_well_described: "list_all well_described getToolDefinitions"
  by code_simp

lemma mcp_listing_accepted: "list_all (\<lambda>t. name t \<in> set mcp_cases) getToolDefinitions"
  by code_simp

text \<open>
  Claim C8 (round trip between dispatch and listing), where the code departs from it. In
  index.ts every label of the call handler is listed, well described (\<open>index_round_trip\<close>).
  In functions/mcp.ts every descriptor of \<open>getToolDefinitions\<close> is well described and names a
  label of \<open>executeToolInternal\<close>, but not the other way round: \<open>add_artifact_link\<close> is a
  label and no descriptor has that name, and so for twenty of the labels.
\<close>

theorem mcp_listing_incomplete:
  "executeToolInternal cfg env catalog org ''add_artifact_link'' args w
     = catalog ''add_artifact_link'' args w
   \<and> ''add_artifact_link'' \<in> set mcp_cases
   \<and> \<not> listed getToolDefinitions ''add_artifact_link''
   \<and> ''add_artifact_link'' \<notin> set (map name getToolDefinitions)
   \<and> filter (\<lambda>n. n \<notin> set (map name getToolDefinitions)) mcp_cases
       = [''add_artifact_link'', ''link_work_item_to_pull_request'', ''get_my_branches'',
          ''list_pull_requests_by_commits'', ''list_pull_request_thread_comments'',
          ''update_pull_request_thread'', ''get_build_log_by_id'', ''get_build_changes'',
          ''get_build_definition_revisions'', ''create_pipeline'', ''update_build_stage'',
          ''create_iterations'', ''assign_iterations'', ''get_iteration_capacities'',
          ''update_team_capacity'', ''create_test_suite'', ''add_test_cases_to_suite'',
          ''create_test_case'', ''update_test_case_steps'', ''get_test_results_from_build'']"
proof -
  have accepted: "''add_artifact_link'' \<in> set mcp_cases"
    by code_simp
  have routed: "executeToolInternal cfg env catalog org ''add_artifact_link'' args w
     = catalog ''add_artifact_link'' args w"
    using accepted by (simp add: executeToolInternal_def)
  have unlisted: "\<not> listed getToolDefinitions ''add_artifact_link''"
    by code_simp
  have no_name: "''add_artifact_link'' \<notin> set (map name getToolDefinitions)"
    by code_simp
  have missing: "filter (\<lambda>n. n \<notin> set (map name getToolDefinitions)) mcp_cases
       = [''add_artifact_link'', ''link_work_item_to_pull_request'', ''get_my_branches'',
          ''list_pull_requests_by_commits'', ''list_pull_request_thread_comments'',
          ''update_pull_request_thread'', ''get_build_log_by_id'', ''get_build_changes'',
          ''get_build_definition_revisions'', ''create_pipeline'', ''update_build_stage'',
          ''create_iterations'', ''assign_iterations'', ''get_iteration_capacities'',
          ''update_team_capacity'', ''create_test_suite'', ''add_test_cases_to_suite'',
          ''create_test_case'', ''update_test_case_steps'', ''get_test_results_from_build'']"
    by code_simp
  show ?thesis
    by (intro conjI) (rule routed accepted unlisted no_name missing)+
qed

end
